theory Spec2Isabelle
  imports Main "HOL-Library.Word" "HOL-Library.List_Lexorder"
begin

unbundle bit_operations_syntax

section \<open>Hardware fingerprint of the Windows agent\<close>

text \<open>
  A shallow embedding of \<^verbatim>\<open>agent/managedInstances/fingerprint/hardwareInfo_windows.go\<close>,
  \<^verbatim>\<open>agent/platform/wmi.go\<close> and \<^verbatim>\<open>agent/platform/platform_windows.go\<close>.

  Go functions return a value together with an \<^verbatim>\<open>error\<close>, and the code reads both, so a
  result is a pair whose second component is \<open>None\<close> for \<^verbatim>\<open>nil\<close>. Everything outside
  the process (the service manager, the WMI query, the \<^verbatim>\<open>wmic.exe\<close> child process, the
  host identity lookups) is a field of an environment record that holds what the
  collaborator answers. Calls to collaborators are recorded, in order, as a list of events.
  Log lines are not modelled.
\<close>

subsection \<open>Errors, events, service states\<close>

datatype error = Error string

type_synonym byte = "8 word"

text \<open>\<^verbatim>\<open>svc.State\<close> of golang.org/x/sys/windows/svc.\<close>

datatype State = Stopped | StartPending | StopPending | Running
  | ContinuePending | PausePending | Paused

record Status =
  State :: State

datatype event =
    MgrConnect
  | OpenService string
  | ServiceQuery
  | Sleep nat
  | WmiQuery string
  | ExecOutput "string list"
  | HostnameInfo
  | PrimaryIpInfo
  | MacAddrInfo

subsection \<open>Constants\<close>

definition hardwareID :: string where "hardwareID = ''uuid''"
definition wmiServiceName :: string where "wmiServiceName = ''Winmgmt''"
definition serviceRetryInterval :: nat where "serviceRetryInterval = 15"
definition serviceRetry :: nat where "serviceRetry = 5"

type_synonym WMIInterface = string

definition wmic :: WMIInterface where "wmic = ''WMIC''"
definition wql :: WMIInterface where "wql = ''WQL''"

subsection \<open>waitForService\<close>

text \<open>
  A service handle is the sequence of answers its \<^verbatim>\<open>Query()\<close> gives: \<open>service 0\<close> is the
  answer to the next call, and a call leaves \<open>service \<circ> Suc\<close>.
\<close>

type_synonym Service = "nat \<Rightarrow> Status \<times> error option"

definition timeoutError :: error where
  "timeoutError = Error ''Failed to wait for WMI to get into Running status''"

text \<open>
  The loop \<^verbatim>\<open>for attempt := 1; attempt <= serviceRetry; attempt++\<close>. The result is the
  returned error and the events of the loop.
\<close>

function waitForService_loop :: "Service \<Rightarrow> nat \<Rightarrow> error option \<times> event list" where
  "waitForService_loop service attempt =
     (if attempt \<le> serviceRetry then
        (case service 0 of (status, err) \<Rightarrow>
           if err = None \<and> State status = Running then (None, [ServiceQuery])
           else (case waitForService_loop (service \<circ> Suc) (attempt + 1) of
                   (r, evs) \<Rightarrow> (r, ServiceQuery # Sleep serviceRetryInterval # evs)))
      else (Some timeoutError, []))"
  by pat_completeness auto
termination
  by (relation "measure (\<lambda>(service, attempt). Suc serviceRetry - attempt)") auto

declare waitForService_loop.simps [simp del]

definition waitForService :: "Service \<Rightarrow> error option \<times> event list" where
  "waitForService service = waitForService_loop service 1"

subsection \<open>The digest: \<^verbatim>\<open>md5.Sum\<close>\<close>

text \<open>
  \<^verbatim>\<open>crypto/md5\<close> of the Go standard library, after RFC 1321: the message is padded with
  \<^verbatim>\<open>0x80\<close>, zeros and its bit length as 64 bits little-endian, and each block of 64
  bytes goes through 64 steps on four 32-bit words.
\<close>

definition md5_K :: "32 word list" where
  "md5_K = [
    0xd76aa478, 0xe8c7b756, 0x242070db, 0xc1bdceee,
    0xf57c0faf, 0x4787c62a, 0xa8304613, 0xfd469501,
    0x698098d8, 0x8b44f7af, 0xffff5bb1, 0x895cd7be,
    0x6b901122, 0xfd987193, 0xa679438e, 0x49b40821,
    0xf61e2562, 0xc040b340, 0x265e5a51, 0xe9b6c7aa,
    0xd62f105d, 0x02441453, 0xd8a1e681, 0xe7d3fbc8,
    0x21e1cde6, 0xc33707d6, 0xf4d50d87, 0x455a14ed,
    0xa9e3e905, 0xfcefa3f8, 0x676f02d9, 0x8d2a4c8a,
    0xfffa3942, 0x8771f681, 0x6d9d6122, 0xfde5380c,
    0xa4beea44, 0x4bdecfa9, 0xf6bb4b60, 0xbebfbc70,
    0x289b7ec6, 0xeaa127fa, 0xd4ef3085, 0x04881d05,
    0xd9d4d039, 0xe6db99e5, 0x1fa27cf8, 0xc4ac5665,
    0xf4292244, 0x432aff97, 0xab9423a7, 0xfc93a039,
    0x655b59c3, 0x8f0ccc92, 0xffeff47d, 0x85845dd1,
    0x6fa87e4f, 0xfe2ce6e0, 0xa3014314, 0x4e0811a1,
    0xf7537e82, 0xbd3af235, 0x2ad7d2bb, 0xeb86d391]"

definition md5_S :: "nat list" where
  "md5_S = [7, 12, 17, 22, 7, 12, 17, 22, 7, 12, 17, 22, 7, 12, 17, 22,
            5, 9, 14, 20, 5, 9, 14, 20, 5, 9, 14, 20, 5, 9, 14, 20,
            4, 11, 16, 23, 4, 11, 16, 23, 4, 11, 16, 23, 4, 11, 16, 23,
            6, 10, 15, 21, 6, 10, 15, 21, 6, 10, 15, 21, 6, 10, 15, 21]"

definition rotl32 :: "32 word \<Rightarrow> nat \<Rightarrow> 32 word" where
  "rotl32 x n = push_bit n x OR drop_bit (32 - n) x"

definition le32 :: "byte list \<Rightarrow> 32 word" where
  "le32 bs = foldr (\<lambda>b w. ucast b OR push_bit 8 w) bs 0"

definition bytes_le32 :: "32 word \<Rightarrow> byte list" where
  "bytes_le32 w = map (\<lambda>i. ucast (drop_bit (8 * i) w)) [0..<4]"

fun chunks :: "nat \<Rightarrow> 'a list \<Rightarrow> 'a list list" where
  "chunks n [] = []"
| "chunks n (x # xs) =
     (if n = 0 then [] else take n (x # xs) # chunks n (drop n (x # xs)))"

definition md5_pad :: "byte list \<Rightarrow> byte list" where
  "md5_pad m =
     m @ [0x80] @ replicate ((119 - length m mod 64) mod 64) 0
       @ map (\<lambda>i. ucast (drop_bit (8 * i) (word_of_nat (8 * length m) :: 64 word))) [0..<8]"

type_synonym md5_state = "32 word \<times> 32 word \<times> 32 word \<times> 32 word"

definition md5_init :: md5_state where
  "md5_init = (0x67452301, 0xefcdab89, 0x98badcfe, 0x10325476)"

definition md5_step :: "32 word list \<Rightarrow> md5_state \<Rightarrow> nat \<Rightarrow> md5_state" where
  "md5_step M st i =
     (case st of (a, b, c, d) \<Rightarrow>
        let (f, g) =
              (if i < 16 then ((b AND c) OR (NOT b AND d), i)
               else if i < 32 then ((d AND b) OR (NOT d AND c), (5 * i + 1) mod 16)
               else if i < 48 then (b XOR c XOR d, (3 * i + 5) mod 16)
               else (c XOR (b OR NOT d), (7 * i) mod 16));
            f' = f + a + md5_K ! i + M ! g
        in (d, b + rotl32 f' (md5_S ! i), b, c))"

definition md5_block :: "md5_state \<Rightarrow> byte list \<Rightarrow> md5_state" where
  "md5_block st blk =
     (case st of (a0, b0, c0, d0) \<Rightarrow>
        case foldl (md5_step (map le32 (chunks 4 blk))) st [0..<64] of
          (a, b, c, d) \<Rightarrow> (a0 + a, b0 + b, c0 + c, d0 + d))"

definition md5_Sum :: "byte list \<Rightarrow> byte list" where
  "md5_Sum m =
     (case foldl md5_block md5_init (chunks 64 (md5_pad m)) of
        (a, b, c, d) \<Rightarrow> bytes_le32 a @ bytes_le32 b @ bytes_le32 c @ bytes_le32 d)"

subsection \<open>The printable encoding: \<^verbatim>\<open>base64.StdEncoding.EncodeToString\<close>\<close>

definition encodeStd :: string where
  "encodeStd = ''ABCDEFGHIJKLMNOPQRSTUVWXYZabcdefghijklmnopqrstuvwxyz0123456789+/''"

fun EncodeToString :: "byte list \<Rightarrow> string" where
  "EncodeToString [] = []"
| "EncodeToString [a] =
     [encodeStd ! (unat a div 4), encodeStd ! (unat a mod 4 * 16), CHR ''='', CHR ''='']"
| "EncodeToString [a, b] =
     [encodeStd ! (unat a div 4),
      encodeStd ! (unat a mod 4 * 16 + unat b div 16),
      encodeStd ! (unat b mod 16 * 4), CHR ''='']"
| "EncodeToString (a # b # c # rest) =
     [encodeStd ! (unat a div 4),
      encodeStd ! (unat a mod 4 * 16 + unat b div 16),
      encodeStd ! (unat b mod 16 * 4 + unat c div 64),
      encodeStd ! (unat c mod 64)] @ EncodeToString rest"

definition bytes_of :: "string \<Rightarrow> byte list" where
  "bytes_of s = map of_char s"

definition string_of :: "byte list \<Rightarrow> string" where
  "string_of bs = map (\<lambda>b. char_of (unat b)) bs"

subsection \<open>The serialisation: \<^verbatim>\<open>gob.NewEncoder(&b).Encode\<close>\<close>

text \<open>
  \<^verbatim>\<open>encoding/gob\<close> of the Go standard library, for the values this program encodes:
  structs whose fields are strings and unsigned integers. A fresh encoder first sends
  the description of the struct type (a \<^verbatim>\<open>wireType\<close> value under the negated type id)
  and then the value under the type id; each message is preceded by its length. Inside
  a struct a field is sent as the distance from the previous field sent, then its value;
  a field holding the zero value is not sent; a zero byte closes the struct.

  The type id is given out by the registry of the package, which is one for the whole
  process: a type gets the next free id when a value of it is encoded for the first
  time, and keeps it for as long as the process lives. \<open>gobEncode\<close> is the stream
  under a given id; \<open>gobEncoder\<close> is the call as the program makes it, a step on the
  registry. In a process that has encoded nothing yet, the first id given out to a type
  of the program is 64 with Go 1.21 and later and 65 before.
\<close>

datatype gobValue = GobString string | GobUint nat

type_synonym gobStruct = "string \<times> (string \<times> gobValue) list"

function beBytes :: "nat \<Rightarrow> byte list" where
  "beBytes n = (if n = 0 then [] else beBytes (n div 256) @ [of_nat (n mod 256)])"
  by pat_completeness auto
termination
  by (relation "measure id") auto

declare beBytes.simps [simp del]

definition encodeUint :: "nat \<Rightarrow> byte list" where
  "encodeUint x =
     (if x \<le> 0x7F then [of_nat x]
      else of_nat (256 - length (beBytes x)) # beBytes x)"

definition encodeInt :: "int \<Rightarrow> byte list" where
  "encodeInt i =
     encodeUint (if i < 0 then 2 * nat (- i - 1) + 1 else 2 * nat i)"

definition encodeString :: "string \<Rightarrow> byte list" where
  "encodeString s = encodeUint (length s) @ bytes_of s"

fun gobTypeId :: "gobValue \<Rightarrow> int" where
  "gobTypeId (GobUint n) = 3"
| "gobTypeId (GobString s) = 6"

fun gobIsZero :: "gobValue \<Rightarrow> bool" where
  "gobIsZero (GobUint n) = (n = 0)"
| "gobIsZero (GobString s) = (s = [])"

fun encodeValue :: "gobValue \<Rightarrow> byte list" where
  "encodeValue (GobUint n) = encodeUint n"
| "encodeValue (GobString s) = encodeString s"

text \<open>\<open>encodeStruct prev i fs\<close>: \<open>prev\<close> is the number of the last field sent
  (\<open>-1\<close> at the start), \<open>i\<close> the number of the first field of \<open>fs\<close>.\<close>

fun encodeStruct :: "int \<Rightarrow> int \<Rightarrow> (string \<times> gobValue) list \<Rightarrow> byte list" where
  "encodeStruct prev i [] = [0]"
| "encodeStruct prev i ((name, v) # fs) =
     (if gobIsZero v then encodeStruct prev (i + 1) fs
      else encodeUint (nat (i - prev)) @ encodeValue v @ encodeStruct i (i + 1) fs)"

definition encodeFieldType :: "string \<times> gobValue \<Rightarrow> byte list" where
  "encodeFieldType f =
     [1] @ encodeString (fst f) @ [1] @ encodeInt (gobTypeId (snd f)) @ [0]"

definition encodeWireType :: "int \<Rightarrow> gobStruct \<Rightarrow> byte list" where
  "encodeWireType typeId s =
     [3] @ [1] @ [1] @ encodeString (fst s) @ [1] @ encodeInt typeId @ [0]
       @ (if snd s = [] then []
          else [1] @ encodeUint (length (snd s)) @ concat (map encodeFieldType (snd s)))
       @ [0] @ [0]"

definition gobMessage :: "byte list \<Rightarrow> byte list" where
  "gobMessage payload = encodeUint (length payload) @ payload"

definition gobEncode :: "int \<Rightarrow> gobStruct \<Rightarrow> byte list \<times> error option" where
  "gobEncode typeId s =
     (gobMessage (encodeInt (- typeId) @ encodeWireType typeId s)
        @ gobMessage (encodeInt typeId @ encodeStruct (- 1) 0 (snd s)), None)"

record gobRegistry =
  typeIds :: "string \<rightharpoonup> int"
  nextId :: int

definition freshRegistry :: "int \<Rightarrow> gobRegistry" where
  "freshRegistry first = \<lparr>typeIds = Map.empty, nextId = first\<rparr>"

definition gobTypeIdOf :: "gobRegistry \<Rightarrow> string \<Rightarrow> int \<times> gobRegistry" where
  "gobTypeIdOf g name =
     (case typeIds g name of
        Some typeId \<Rightarrow> (typeId, g)
      | None \<Rightarrow>
          (nextId g, g\<lparr>typeIds := (typeIds g)(name \<mapsto> nextId g), nextId := nextId g + 1\<rparr>))"

definition gobEncoder ::
  "gobRegistry \<Rightarrow> gobStruct \<Rightarrow> (byte list \<times> error option) \<times> gobRegistry" where
  "gobEncoder g s =
     (case gobTypeIdOf g (fst s) of (typeId, g') \<Rightarrow> (gobEncode typeId s, g'))"

subsection \<open>The WMI classes of \<^verbatim>\<open>wmi.go\<close>\<close>

record Win32_ComputerSystemProduct =
  UUID :: string

record Win32_Processor =
  Caption :: string
  DeviceID :: string
  Manufacturer :: string
  MaxClockSpeed :: "32 word"
  Name :: string
  SocketDesignation :: string

record Win32_PhysicalMemory =
  Capacity :: "64 word"
  DeviceLocator :: string
  MemoryType :: "16 word"
  Name :: string
  Tag :: string
  TotalWidth :: "16 word"

record Win32_BIOS =
  Manufacturer :: string
  Name :: string
  SerialNumber :: string
  SMBIOSBIOSVersion :: string
  Version :: string

record Win32_ComputerSystem =
  DNSHostName :: string
  Domain :: string
  Manufacturer :: string
  Model :: string
  Name :: string
  PrimaryOwnerName :: string
  TotalPhysicalMemory :: "64 word"

record Win32_DiskDrive =
  Caption :: string
  DeviceID :: string
  Model :: string
  Partitions :: "32 word"
  Size :: "64 word"

record Win32_OperatingSystem =
  Caption :: string
  OperatingSystemSKU :: "32 word"
  Version :: string

text \<open>
  A generic function \<^verbatim>\<open>f[T interface{}]\<close> is modelled with what Go knows of \<open>T\<close> passed
  along: the name of the type (the WMI class the query package selects from, and the
  name in the gob type description), its zero value, and its fields as the encoder
  reads them by reflection.
\<close>

definition zero_Win32_ComputerSystemProduct :: Win32_ComputerSystemProduct where
  "zero_Win32_ComputerSystemProduct = \<lparr>UUID = []\<rparr>"

definition zero_Win32_Processor :: Win32_Processor where
  "zero_Win32_Processor =
     \<lparr>Win32_Processor.Caption = [], Win32_Processor.DeviceID = [],
      Win32_Processor.Manufacturer = [], MaxClockSpeed = 0,
      Win32_Processor.Name = [], SocketDesignation = []\<rparr>"

definition zero_Win32_PhysicalMemory :: Win32_PhysicalMemory where
  "zero_Win32_PhysicalMemory =
     \<lparr>Capacity = 0, DeviceLocator = [], MemoryType = 0,
      Win32_PhysicalMemory.Name = [], Tag = [], TotalWidth = 0\<rparr>"

definition zero_Win32_BIOS :: Win32_BIOS where
  "zero_Win32_BIOS =
     \<lparr>Win32_BIOS.Manufacturer = [], Win32_BIOS.Name = [], SerialNumber = [],
      SMBIOSBIOSVersion = [], Win32_BIOS.Version = []\<rparr>"

definition zero_Win32_ComputerSystem :: Win32_ComputerSystem where
  "zero_Win32_ComputerSystem =
     \<lparr>DNSHostName = [], Domain = [], Win32_ComputerSystem.Manufacturer = [],
      Win32_ComputerSystem.Model = [], Win32_ComputerSystem.Name = [],
      PrimaryOwnerName = [], TotalPhysicalMemory = 0\<rparr>"

definition zero_Win32_DiskDrive :: Win32_DiskDrive where
  "zero_Win32_DiskDrive =
     \<lparr>Win32_DiskDrive.Caption = [], Win32_DiskDrive.DeviceID = [],
      Win32_DiskDrive.Model = [], Partitions = 0, Size = 0\<rparr>"

definition zero_Win32_OperatingSystem :: Win32_OperatingSystem where
  "zero_Win32_OperatingSystem =
     \<lparr>Win32_OperatingSystem.Caption = [], OperatingSystemSKU = 0,
      Win32_OperatingSystem.Version = []\<rparr>"

definition gob_Win32_ComputerSystemProduct :: "Win32_ComputerSystemProduct \<Rightarrow> gobStruct" where
  "gob_Win32_ComputerSystemProduct r =
     (''Win32_ComputerSystemProduct'', [(''UUID'', GobString (UUID r))])"

definition gob_Win32_Processor :: "Win32_Processor \<Rightarrow> gobStruct" where
  "gob_Win32_Processor r =
     (''Win32_Processor'',
      [(''Caption'', GobString (Win32_Processor.Caption r)),
       (''DeviceID'', GobString (Win32_Processor.DeviceID r)),
       (''Manufacturer'', GobString (Win32_Processor.Manufacturer r)),
       (''MaxClockSpeed'', GobUint (unat (MaxClockSpeed r))),
       (''Name'', GobString (Win32_Processor.Name r)),
       (''SocketDesignation'', GobString (SocketDesignation r))])"

definition gob_Win32_PhysicalMemory :: "Win32_PhysicalMemory \<Rightarrow> gobStruct" where
  "gob_Win32_PhysicalMemory r =
     (''Win32_PhysicalMemory'',
      [(''Capacity'', GobUint (unat (Capacity r))),
       (''DeviceLocator'', GobString (DeviceLocator r)),
       (''MemoryType'', GobUint (unat (MemoryType r))),
       (''Name'', GobString (Win32_PhysicalMemory.Name r)),
       (''Tag'', GobString (Tag r)),
       (''TotalWidth'', GobUint (unat (TotalWidth r)))])"

definition gob_Win32_BIOS :: "Win32_BIOS \<Rightarrow> gobStruct" where
  "gob_Win32_BIOS r =
     (''Win32_BIOS'',
      [(''Manufacturer'', GobString (Win32_BIOS.Manufacturer r)),
       (''Name'', GobString (Win32_BIOS.Name r)),
       (''SerialNumber'', GobString (SerialNumber r)),
       (''SMBIOSBIOSVersion'', GobString (SMBIOSBIOSVersion r)),
       (''Version'', GobString (Win32_BIOS.Version r))])"

definition gob_Win32_ComputerSystem :: "Win32_ComputerSystem \<Rightarrow> gobStruct" where
  "gob_Win32_ComputerSystem r =
     (''Win32_ComputerSystem'',
      [(''DNSHostName'', GobString (DNSHostName r)),
       (''Domain'', GobString (Domain r)),
       (''Manufacturer'', GobString (Win32_ComputerSystem.Manufacturer r)),
       (''Model'', GobString (Win32_ComputerSystem.Model r)),
       (''Name'', GobString (Win32_ComputerSystem.Name r)),
       (''PrimaryOwnerName'', GobString (PrimaryOwnerName r)),
       (''TotalPhysicalMemory'', GobUint (unat (TotalPhysicalMemory r)))])"

definition gob_Win32_DiskDrive :: "Win32_DiskDrive \<Rightarrow> gobStruct" where
  "gob_Win32_DiskDrive r =
     (''Win32_DiskDrive'',
      [(''Caption'', GobString (Win32_DiskDrive.Caption r)),
       (''DeviceID'', GobString (Win32_DiskDrive.DeviceID r)),
       (''Model'', GobString (Win32_DiskDrive.Model r)),
       (''Partitions'', GobUint (unat (Partitions r))),
       (''Size'', GobUint (unat (Size r)))])"

subsection \<open>\<^verbatim>\<open>GetWMIData\<close>, \<^verbatim>\<open>GetSingleWMIObject\<close>, \<^verbatim>\<open>getWMIObject\<close>\<close>

text \<open>
  \<open>answer\<close> is what \<^verbatim>\<open>wmi.Query\<close> leaves in the slice and returns as error.
  \<^verbatim>\<open>GetSingleWMIObject\<close> does not read its argument: the record it returns when there
  is nothing to return is its own zero-valued named result.
\<close>

definition GetWMIData ::
  "string \<Rightarrow> 'a list \<times> error option \<Rightarrow> ('a list \<times> error option) \<times> event list" where
  "GetWMIData cls answer = (answer, [WmiQuery cls])"

definition GetSingleWMIObject ::
  "string \<Rightarrow> 'a \<Rightarrow> 'a list \<times> error option \<Rightarrow> ('a \<times> error option) \<times> event list" where
  "GetSingleWMIObject cls zero answer =
     (case GetWMIData cls answer of ((wmiData, err), evs) \<Rightarrow>
        if err \<noteq> None \<or> length wmiData = 0 then ((zero, err), evs)
        else ((wmiData ! 0, None), evs))"

text \<open>
  \<open>enc\<close> is the encoder, \<^verbatim>\<open>gob.NewEncoder(&b).Encode\<close> into a new buffer: a step on
  the state \<open>g\<close> of the gob package that gives the bytes of the buffer and the error.
  When the query fails the encoder is not called and the state stays as it is.
\<close>

definition getWMIObject ::
  "('g \<Rightarrow> gobStruct \<Rightarrow> (byte list \<times> error option) \<times> 'g) \<Rightarrow> string \<Rightarrow> 'a
     \<Rightarrow> ('a \<Rightarrow> gobStruct) \<Rightarrow> 'a list \<times> error option \<Rightarrow> 'g
     \<Rightarrow> ((string \<times> 'a \<times> error option) \<times> event list) \<times> 'g" where
  "getWMIObject enc cls zero view answer g =
     (case GetSingleWMIObject cls zero answer of ((wmiObject, err), evs) \<Rightarrow>
        if err \<noteq> None then ((([], wmiObject, err), evs), g)
        else (case enc g (view wmiObject) of ((b, err), g') \<Rightarrow>
                if err \<noteq> None then ((([], wmiObject, err), evs), g')
                else (((EncodeToString (md5_Sum b), wmiObject, None), evs), g')))"

subsection \<open>The environment\<close>

text \<open>
  What lies outside the files at hand, for one run: the answers of the collaborators,
  the registry of the gob package as the run finds it, and two values fixed elsewhere.
  \<open>gob_Encode\<close> is the encoder, which for the program is \<open>gobEncoder\<close>;
  \<open>gob_Registry\<close> is the registry of type ids of the process when the run starts.
  \<open>wmicCommand\<close> is the path of \<^verbatim>\<open>wmic.exe\<close>, joined once from the Windows
  directory. \<open>notAvailableMessage\<close> is a string constant of the platform package,
  returned next to an error. \<open>hostnameInfo\<close>, \<open>primaryIpInfo\<close> and
  \<open>macAddrInfo\<close> are the host identity lookups of the fingerprint package: the pair
  they return is taken as given.
\<close>

record Env =
  mgr_Connect :: "error option"
  mgr_OpenService :: "string \<Rightarrow> error option"
  service_Query :: Service
  wmi_Win32_OperatingSystem :: "Win32_OperatingSystem list \<times> error option"
  wmi_Win32_ComputerSystemProduct :: "Win32_ComputerSystemProduct list \<times> error option"
  wmi_Win32_Processor :: "Win32_Processor list \<times> error option"
  wmi_Win32_PhysicalMemory :: "Win32_PhysicalMemory list \<times> error option"
  wmi_Win32_BIOS :: "Win32_BIOS list \<times> error option"
  wmi_Win32_ComputerSystem :: "Win32_ComputerSystem list \<times> error option"
  wmi_Win32_DiskDrive :: "Win32_DiskDrive list \<times> error option"
  gob_Encode :: "gobRegistry \<Rightarrow> gobStruct \<Rightarrow> (byte list \<times> error option) \<times> gobRegistry"
  gob_Registry :: gobRegistry
  wmicCommand :: string
  notAvailableMessage :: string
  exec_Output :: "string \<Rightarrow> string list \<Rightarrow> byte list \<times> error option"
  hostnameInfo :: "string \<times> error option"
  primaryIpInfo :: "string \<times> error option"
  macAddrInfo :: "string \<times> error option"

subsection \<open>Platform version (\<^verbatim>\<open>platform_windows.go\<close>)\<close>

definition WindowsServer2025Version :: string where
  "WindowsServer2025Version = ''10.0.26100''"

text \<open>
  Modelled from the spec: \<^verbatim>\<open>versionutil.VersionCompare\<close> is called by
  \<^verbatim>\<open>isWindowsServer2025OrLater\<close> and its body is not in the files at hand. The spec
  (4.2): the threshold comparison uses a dotted-version ordering comparison (not
  string/lexicographic comparison) since version components vary in digit count. So
  a version is split at the dots, each component is read as a decimal number, and the
  lists of numbers are compared component by component from the left, a proper prefix
  being smaller; the result is -1, 0 or 1. A component that is empty or holds a
  character other than a digit is an error.
\<close>

fun splitDots :: "string \<Rightarrow> string list" where
  "splitDots [] = [[]]"
| "splitDots (c # cs) =
     (if c = CHR ''.'' then [] # splitDots cs
      else (case splitDots cs of [] \<Rightarrow> [[c]] | p # ps \<Rightarrow> (c # p) # ps))"

definition isDigit :: "char \<Rightarrow> bool" where
  "isDigit c = (48 \<le> (of_char c :: nat) \<and> (of_char c :: nat) \<le> 57)"

definition parseComponent :: "string \<Rightarrow> nat option" where
  "parseComponent p =
     (if p \<noteq> [] \<and> list_all isDigit p
      then Some (foldl (\<lambda>n c. 10 * n + (of_char c - 48)) 0 p) else None)"

fun parseComponents :: "string list \<Rightarrow> nat list option" where
  "parseComponents [] = Some []"
| "parseComponents (p # ps) =
     (case parseComponent p of None \<Rightarrow> None
      | Some n \<Rightarrow> (case parseComponents ps of None \<Rightarrow> None | Some ns \<Rightarrow> Some (n # ns)))"

definition parseVersion :: "string \<Rightarrow> nat list option" where
  "parseVersion v = parseComponents (splitDots v)"

fun compareComponents :: "nat list \<Rightarrow> nat list \<Rightarrow> int" where
  "compareComponents [] [] = 0"
| "compareComponents [] (y # ys) = - 1"
| "compareComponents (x # xs) [] = 1"
| "compareComponents (x # xs) (y # ys) =
     (if x < y then - 1 else if y < x then 1 else compareComponents xs ys)"

definition VersionCompare :: "string \<Rightarrow> string \<Rightarrow> int \<times> error option" where
  "VersionCompare a b =
     (case (parseVersion a, parseVersion b) of
        (Some xs, Some ys) \<Rightarrow> (compareComponents xs ys, None)
      | _ \<Rightarrow> (0, Some (Error ''invalid version'')))"

definition getPlatformDetails ::
  "Env \<Rightarrow> (Win32_OperatingSystem \<times> error option) \<times> event list" where
  "getPlatformDetails env =
     GetSingleWMIObject ''Win32_OperatingSystem'' zero_Win32_OperatingSystem
       (wmi_Win32_OperatingSystem env)"

definition getPlatformVersion :: "Env \<Rightarrow> (string \<times> error option) \<times> event list" where
  "getPlatformVersion env =
     (case getPlatformDetails env of ((osData, err), evs) \<Rightarrow>
        if err \<noteq> None then ((notAvailableMessage env, err), evs)
        else ((Win32_OperatingSystem.Version osData, None), evs))"

definition isWindowsServer2025OrLater :: "string \<Rightarrow> bool \<times> error option" where
  "isWindowsServer2025OrLater platformVersion =
     (case VersionCompare platformVersion WindowsServer2025Version of (result, err) \<Rightarrow>
        if err \<noteq> None then (False, err) else (result \<ge> 0, None))"

definition isPlatformWindowsServer2025OrLater ::
  "Env \<Rightarrow> (bool \<times> error option) \<times> event list" where
  "isPlatformWindowsServer2025OrLater env =
     (case getPlatformVersion env of ((platformVersion, err), evs) \<Rightarrow>
        if err \<noteq> None then ((False, err), evs)
        else (isWindowsServer2025OrLater platformVersion, evs))"

text \<open>
  Modelled from the spec: the exported \<^verbatim>\<open>platform.IsPlatformWindowsServer2025OrLater\<close>
  that \<^verbatim>\<open>getWMIInterface\<close> calls is not in the files at hand. The spec (4.2) has the
  selector decide on the platform version against the threshold release, which is what
  the unexported function of the same name does; the exported one hands the call on to it.
\<close>

definition IsPlatformWindowsServer2025OrLater ::
  "Env \<Rightarrow> (bool \<times> error option) \<times> event list" where
  "IsPlatformWindowsServer2025OrLater env = isPlatformWindowsServer2025OrLater env"

subsection \<open>\<^verbatim>\<open>getWMIInterface\<close>\<close>

definition getWMIInterface :: "Env \<Rightarrow> WMIInterface \<times> event list" where
  "getWMIInterface env =
     (case IsPlatformWindowsServer2025OrLater env of ((windows2025OrLater, err), evs) \<Rightarrow>
        if err \<noteq> None then (wmic, evs)
        else if windows2025OrLater then (wql, evs)
        else (wmic, evs))"

subsection \<open>The two backends, per category\<close>

text \<open>
  Modelled from the spec: \<^verbatim>\<open>commandOutputHash\<close> is called by the six category functions
  and its body is not in the files at hand; the calls show that it takes the command and
  its arguments and returns the encoded digest, a string and an error. The spec (4.3):
  execute the command, capture its standard output; apply the digest directly over the
  raw captured bytes, then encode the digest with the printable encoding; on execution
  failure, return an error and an empty digest. The digest and the encoding are those of
  \<^verbatim>\<open>getWMIObject\<close> (4.4: same digest algorithm, same printable encoding). The string
  returned is taken to be the captured output.
\<close>

definition commandOutputHash ::
  "Env \<Rightarrow> string \<Rightarrow> string list \<Rightarrow> (string \<times> string \<times> error option) \<times> event list" where
  "commandOutputHash env command params =
     (case exec_Output env command params of (contentBytes, err) \<Rightarrow>
        if err = None
        then ((EncodeToString (md5_Sum contentBytes), string_of contentBytes, None),
              [ExecOutput (command # params)])
        else (([], [], err), [ExecOutput (command # params)]))"

definition csproductUuid ::
  "Env \<Rightarrow> WMIInterface \<Rightarrow> gobRegistry
     \<Rightarrow> ((string \<times> error option) \<times> event list) \<times> gobRegistry" where
  "csproductUuid env wmiInterface g =
     (if wmiInterface = wmic then
        (case commandOutputHash env (wmicCommand env) [''csproduct'', ''get'', ''UUID''] of
           ((encodedData, uuid, err), evs) \<Rightarrow> (((encodedData, err), evs), g))
      else if wmiInterface = wql then
        (case getWMIObject (gob_Encode env) ''Win32_ComputerSystemProduct''
                zero_Win32_ComputerSystemProduct gob_Win32_ComputerSystemProduct
                (wmi_Win32_ComputerSystemProduct env) g of
           (((encodedData, csProductData, err), evs), g') \<Rightarrow> (((encodedData, err), evs), g'))
      else ((([], None), []), g))"

definition processorInfoHash ::
  "Env \<Rightarrow> WMIInterface \<Rightarrow> gobRegistry
     \<Rightarrow> ((string \<times> error option) \<times> event list) \<times> gobRegistry" where
  "processorInfoHash env wmiInterface g =
     (if wmiInterface = wmic then
        (case commandOutputHash env (wmicCommand env) [''cpu'', ''list'', ''brief''] of
           ((encodedData, _, err), evs) \<Rightarrow> (((encodedData, err), evs), g))
      else if wmiInterface = wql then
        (case getWMIObject (gob_Encode env) ''Win32_Processor''
                zero_Win32_Processor gob_Win32_Processor (wmi_Win32_Processor env) g of
           (((encodedData, _, err), evs), g') \<Rightarrow> (((encodedData, err), evs), g'))
      else ((([], None), []), g))"

definition memoryInfoHash ::
  "Env \<Rightarrow> WMIInterface \<Rightarrow> gobRegistry
     \<Rightarrow> ((string \<times> error option) \<times> event list) \<times> gobRegistry" where
  "memoryInfoHash env wmiInterface g =
     (if wmiInterface = wmic then
        (case commandOutputHash env (wmicCommand env) [''memorychip'', ''list'', ''brief''] of
           ((encodedData, _, err), evs) \<Rightarrow> (((encodedData, err), evs), g))
      else if wmiInterface = wql then
        (case getWMIObject (gob_Encode env) ''Win32_PhysicalMemory''
                zero_Win32_PhysicalMemory gob_Win32_PhysicalMemory
                (wmi_Win32_PhysicalMemory env) g of
           (((encodedData, _, err), evs), g') \<Rightarrow> (((encodedData, err), evs), g'))
      else ((([], None), []), g))"

definition biosInfoHash ::
  "Env \<Rightarrow> WMIInterface \<Rightarrow> gobRegistry
     \<Rightarrow> ((string \<times> error option) \<times> event list) \<times> gobRegistry" where
  "biosInfoHash env wmiInterface g =
     (if wmiInterface = wmic then
        (case commandOutputHash env (wmicCommand env) [''bios'', ''list'', ''brief''] of
           ((encodedData, _, err), evs) \<Rightarrow> (((encodedData, err), evs), g))
      else if wmiInterface = wql then
        (case getWMIObject (gob_Encode env) ''Win32_BIOS''
                zero_Win32_BIOS gob_Win32_BIOS (wmi_Win32_BIOS env) g of
           (((encodedData, _, err), evs), g') \<Rightarrow> (((encodedData, err), evs), g'))
      else ((([], None), []), g))"

definition systemInfoHash ::
  "Env \<Rightarrow> WMIInterface \<Rightarrow> gobRegistry
     \<Rightarrow> ((string \<times> error option) \<times> event list) \<times> gobRegistry" where
  "systemInfoHash env wmiInterface g =
     (if wmiInterface = wmic then
        (case commandOutputHash env (wmicCommand env) [''computersystem'', ''list'', ''brief''] of
           ((encodedData, _, err), evs) \<Rightarrow> (((encodedData, err), evs), g))
      else if wmiInterface = wql then
        (case getWMIObject (gob_Encode env) ''Win32_ComputerSystem''
                zero_Win32_ComputerSystem gob_Win32_ComputerSystem
                (wmi_Win32_ComputerSystem env) g of
           (((encodedData, _, err), evs), g') \<Rightarrow> (((encodedData, err), evs), g'))
      else ((([], None), []), g))"

definition diskInfoHash ::
  "Env \<Rightarrow> WMIInterface \<Rightarrow> gobRegistry
     \<Rightarrow> ((string \<times> error option) \<times> event list) \<times> gobRegistry" where
  "diskInfoHash env wmiInterface g =
     (if wmiInterface = wmic then
        (case commandOutputHash env (wmicCommand env) [''diskdrive'', ''list'', ''brief''] of
           ((encodedData, _, err), evs) \<Rightarrow> (((encodedData, err), evs), g))
      else if wmiInterface = wql then
        (case getWMIObject (gob_Encode env) ''Win32_DiskDrive''
                zero_Win32_DiskDrive gob_Win32_DiskDrive (wmi_Win32_DiskDrive env) g of
           (((encodedData, _, err), evs), g') \<Rightarrow> (((encodedData, err), evs), g'))
      else ((([], None), []), g))"

subsection \<open>\<^verbatim>\<open>currentHwHash\<close>\<close>

text \<open>
  Modelled from the spec: the constant \<^verbatim>\<open>ipAddressID\<close>, the key under which the primary
  IP address is stored, is declared outside the files at hand. The spec (3) gives the fixed
  vocabulary of keys, where it is \<^verbatim>\<open>ip-address\<close>.
\<close>

definition ipAddressID :: string where "ipAddressID = ''ip-address''"

text \<open>
  The result is the map, the error, and the events of the run in order. An assignment
  \<^verbatim>\<open>hardwareHash[k], _ = f()\<close> stores the string that \<open>f\<close> returns and drops its error.
  The registry of the gob package goes from one category to the next, starting as the run
  finds it.
\<close>

definition currentHwHash :: "Env \<Rightarrow> ((string \<rightharpoonup> string) \<times> error option) \<times> event list" where
  "currentHwHash env =
     (let hardwareHash = Map.empty in
      case mgr_Connect env of
        Some err \<Rightarrow> ((hardwareHash, Some err), [MgrConnect])
      | None \<Rightarrow>
     (case mgr_OpenService env wmiServiceName of
        Some err \<Rightarrow> ((hardwareHash, Some err), [MgrConnect, OpenService wmiServiceName])
      | None \<Rightarrow>
     (case waitForService (service_Query env) of
        (Some err, evs0) \<Rightarrow>
          ((hardwareHash, Some err), [MgrConnect, OpenService wmiServiceName] @ evs0)
      | (None, evs0) \<Rightarrow>
     (case getWMIInterface env of (wmiInterface, evsI) \<Rightarrow>
      case csproductUuid env wmiInterface (gob_Registry env) of (((v1, _), evs1), g1) \<Rightarrow>
      case processorInfoHash env wmiInterface g1 of (((v2, _), evs2), g2) \<Rightarrow>
      case memoryInfoHash env wmiInterface g2 of (((v3, _), evs3), g3) \<Rightarrow>
      case biosInfoHash env wmiInterface g3 of (((v4, _), evs4), g4) \<Rightarrow>
      case systemInfoHash env wmiInterface g4 of (((v5, _), evs5), g5) \<Rightarrow>
      case hostnameInfo env of (v6, _) \<Rightarrow>
      case primaryIpInfo env of (v7, _) \<Rightarrow>
      case macAddrInfo env of (v8, _) \<Rightarrow>
      case diskInfoHash env wmiInterface g5 of (((v9, _), evs9), g6) \<Rightarrow>
        ((hardwareHash
            (hardwareID \<mapsto> v1, ''processor-hash'' \<mapsto> v2, ''memory-hash'' \<mapsto> v3,
             ''bios-hash'' \<mapsto> v4, ''system-hash'' \<mapsto> v5, ''hostname-info'' \<mapsto> v6,
             ipAddressID \<mapsto> v7, ''macaddr-info'' \<mapsto> v8, ''disk-info'' \<mapsto> v9),
          None),
         [MgrConnect, OpenService wmiServiceName] @ evs0 @ evsI @ evs1 @ evs2 @ evs3
           @ evs4 @ evs5 @ [HostnameInfo, PrimaryIpInfo, MacAddrInfo] @ evs9)))))"

subsection \<open>The six hardware categories\<close>

text \<open>
  The source has one function per category and no table of categories. To state a
  property of any one category, the six are named here: a category has its key in the
  map, its function, the arguments given to \<^verbatim>\<open>wmic.exe\<close> and its WMI class.
\<close>

datatype category = CsProduct | Processor | PhysicalMemory | BIOS | ComputerSystem | DiskDrive

fun categoryKey :: "category \<Rightarrow> string" where
  "categoryKey CsProduct = hardwareID"
| "categoryKey Processor = ''processor-hash''"
| "categoryKey PhysicalMemory = ''memory-hash''"
| "categoryKey BIOS = ''bios-hash''"
| "categoryKey ComputerSystem = ''system-hash''"
| "categoryKey DiskDrive = ''disk-info''"

fun categoryHash ::
  "category \<Rightarrow> Env \<Rightarrow> WMIInterface \<Rightarrow> gobRegistry
     \<Rightarrow> ((string \<times> error option) \<times> event list) \<times> gobRegistry" where
  "categoryHash CsProduct = csproductUuid"
| "categoryHash Processor = processorInfoHash"
| "categoryHash PhysicalMemory = memoryInfoHash"
| "categoryHash BIOS = biosInfoHash"
| "categoryHash ComputerSystem = systemInfoHash"
| "categoryHash DiskDrive = diskInfoHash"

fun categoryParams :: "category \<Rightarrow> string list" where
  "categoryParams CsProduct = [''csproduct'', ''get'', ''UUID'']"
| "categoryParams Processor = [''cpu'', ''list'', ''brief'']"
| "categoryParams PhysicalMemory = [''memorychip'', ''list'', ''brief'']"
| "categoryParams BIOS = [''bios'', ''list'', ''brief'']"
| "categoryParams ComputerSystem = [''computersystem'', ''list'', ''brief'']"
| "categoryParams DiskDrive = [''diskdrive'', ''list'', ''brief'']"

fun categoryClass :: "category \<Rightarrow> string" where
  "categoryClass CsProduct = ''Win32_ComputerSystemProduct''"
| "categoryClass Processor = ''Win32_Processor''"
| "categoryClass PhysicalMemory = ''Win32_PhysicalMemory''"
| "categoryClass BIOS = ''Win32_BIOS''"
| "categoryClass ComputerSystem = ''Win32_ComputerSystem''"
| "categoryClass DiskDrive = ''Win32_DiskDrive''"

text \<open>
  The order in which \<^verbatim>\<open>currentHwHash\<close> goes through the categories, and the registry
  of the gob package as the function of category \<open>c\<close> finds it: the registry at the
  start of the run after the categories that come before \<open>c\<close>.
\<close>

definition categoryOrder :: "category list" where
  "categoryOrder = [CsProduct, Processor, PhysicalMemory, BIOS, ComputerSystem, DiskDrive]"

definition registryBefore :: "Env \<Rightarrow> WMIInterface \<Rightarrow> category \<Rightarrow> gobRegistry" where
  "registryBefore env w c =
     foldl (\<lambda>g d. snd (categoryHash d env w g)) (gob_Registry env)
       (takeWhile (\<lambda>d. d \<noteq> c) categoryOrder)"

text \<open>
  One category failing, as a change of the environment. \<open>failQuery c e\<close>: the query of
  the category fails with \<open>e\<close> on both backends, the WMI query for its class and the
  command with its arguments. Nothing else of the environment changes; what the failure
  does to the registry is what \<^verbatim>\<open>getWMIObject\<close> does on a failed query.
\<close>

definition failCommand ::
  "string list \<Rightarrow> error \<Rightarrow> (string \<Rightarrow> string list \<Rightarrow> byte list \<times> error option)
     \<Rightarrow> string \<Rightarrow> string list \<Rightarrow> byte list \<times> error option" where
  "failCommand args e exec =
     (\<lambda>command params. if params = args then ([], Some e) else exec command params)"

fun failQuery :: "category \<Rightarrow> error \<Rightarrow> Env \<Rightarrow> Env" where
  "failQuery CsProduct e env =
     env\<lparr>wmi_Win32_ComputerSystemProduct := ([], Some e),
         exec_Output := failCommand (categoryParams CsProduct) e (exec_Output env)\<rparr>"
| "failQuery Processor e env =
     env\<lparr>wmi_Win32_Processor := ([], Some e),
         exec_Output := failCommand (categoryParams Processor) e (exec_Output env)\<rparr>"
| "failQuery PhysicalMemory e env =
     env\<lparr>wmi_Win32_PhysicalMemory := ([], Some e),
         exec_Output := failCommand (categoryParams PhysicalMemory) e (exec_Output env)\<rparr>"
| "failQuery BIOS e env =
     env\<lparr>wmi_Win32_BIOS := ([], Some e),
         exec_Output := failCommand (categoryParams BIOS) e (exec_Output env)\<rparr>"
| "failQuery ComputerSystem e env =
     env\<lparr>wmi_Win32_ComputerSystem := ([], Some e),
         exec_Output := failCommand (categoryParams ComputerSystem) e (exec_Output env)\<rparr>"
| "failQuery DiskDrive e env =
     env\<lparr>wmi_Win32_DiskDrive := ([], Some e),
         exec_Output := failCommand (categoryParams DiskDrive) e (exec_Output env)\<rparr>"

subsection \<open>Environments on which the model is run\<close>

text \<open>
  A Windows Server 2025 host: the service is running at the first poll, every class
  answers with one record, \<^verbatim>\<open>wmic.exe\<close> is not installed. The agent is built with
  Go 1.21 or later and the process has encoded nothing with gob before the run.
\<close>

definition exampleEnv :: Env where
  "exampleEnv =
     \<lparr>mgr_Connect = None,
      mgr_OpenService = (\<lambda>name. None),
      service_Query = (\<lambda>n. (\<lparr>State = Running\<rparr>, None)),
      wmi_Win32_OperatingSystem =
        ([\<lparr>Win32_OperatingSystem.Caption = ''Microsoft Windows Server 2025 Datacenter'',
           OperatingSystemSKU = 8, Win32_OperatingSystem.Version = ''10.0.26100''\<rparr>], None),
      wmi_Win32_ComputerSystemProduct = ([\<lparr>UUID = ''EC2A01F4-0042-11EF-8000-3CECEF000001''\<rparr>], None),
      wmi_Win32_Processor =
        ([\<lparr>Win32_Processor.Caption = ''Intel64 Family 6 Model 85 Stepping 7'',
           Win32_Processor.DeviceID = ''CPU0'', Win32_Processor.Manufacturer = ''GenuineIntel'',
           MaxClockSpeed = 2500, Win32_Processor.Name = ''Intel(R) Xeon(R) Platinum 8259CL'',
           SocketDesignation = ''CPU 0''\<rparr>], None),
      wmi_Win32_PhysicalMemory =
        ([\<lparr>Capacity = 8589934592, DeviceLocator = ''DIMM 0'', MemoryType = 0,
           Win32_PhysicalMemory.Name = ''Physical Memory'', Tag = ''Physical Memory 0'',
           TotalWidth = 72\<rparr>], None),
      wmi_Win32_BIOS =
        ([\<lparr>Win32_BIOS.Manufacturer = ''Amazon EC2'', Win32_BIOS.Name = ''1.0'',
           SerialNumber = ''ec2a01f4'', SMBIOSBIOSVersion = ''1.0'',
           Win32_BIOS.Version = ''AMAZON - 1''\<rparr>], None),
      wmi_Win32_ComputerSystem =
        ([\<lparr>DNSHostName = ''host1'', Domain = ''WORKGROUP'',
           Win32_ComputerSystem.Manufacturer = ''Amazon EC2'',
           Win32_ComputerSystem.Model = ''t3.large'', Win32_ComputerSystem.Name = ''HOST1'',
           PrimaryOwnerName = ''EC2'', TotalPhysicalMemory = 8589934592\<rparr>], None),
      wmi_Win32_DiskDrive =
        ([\<lparr>Win32_DiskDrive.Caption = ''NVMe Amazon Elastic B'',
           Win32_DiskDrive.DeviceID = ''PHYSICALDRIVE0'',
           Win32_DiskDrive.Model = ''NVMe Amazon Elastic B'', Partitions = 1,
           Size = 32210196480\<rparr>], None),
      gob_Encode = gobEncoder,
      gob_Registry = freshRegistry 64,
      wmicCommand = ''wmic.exe'',
      notAvailableMessage = ''NotAvailable'',
      exec_Output = (\<lambda>command params. ([], Some (Error ''executable file not found''))),
      hostnameInfo = (''host1'', None),
      primaryIpInfo = (''10.0.0.5'', None),
      macAddrInfo = (''aa:bb:cc:dd:ee:ff'', None)\<rparr>"

text \<open>The same host when no query, command or lookup gives an answer.\<close>

definition failingEnv :: Env where
  "failingEnv =
     exampleEnv
       \<lparr>wmi_Win32_OperatingSystem := ([], Some (Error ''Invalid namespace'')),
        wmi_Win32_ComputerSystemProduct := ([], Some (Error ''Invalid namespace'')),
        wmi_Win32_Processor := ([], Some (Error ''Invalid namespace'')),
        wmi_Win32_PhysicalMemory := ([], Some (Error ''Invalid namespace'')),
        wmi_Win32_BIOS := ([], Some (Error ''Invalid namespace'')),
        wmi_Win32_ComputerSystem := ([], Some (Error ''Invalid namespace'')),
        wmi_Win32_DiskDrive := ([], Some (Error ''Invalid namespace'')),
        hostnameInfo := ([], Some (Error ''no hostname'')),
        primaryIpInfo := ([], Some (Error ''no interface'')),
        macAddrInfo := ([], Some (Error ''no interface''))\<rparr>"

text \<open>A host whose service stays in \<open>StartPending\<close>, and one whose service manager
  refuses the connection.\<close>

definition pendingEnv :: Env where
  "pendingEnv = exampleEnv\<lparr>service_Query := (\<lambda>n. (\<lparr>State = StartPending\<rparr>, None))\<rparr>"

definition refusedEnv :: Env where
  "refusedEnv = exampleEnv\<lparr>mgr_Connect := Some (Error ''Access is denied.'')\<rparr>"

text \<open>A host that gives the same UUID on both backends: \<^verbatim>\<open>wmic.exe\<close> prints its eight
  characters and nothing else, and the query returns one record that holds them.\<close>

definition uuidEnv :: Env where
  "uuidEnv =
     exampleEnv
       \<lparr>wmi_Win32_ComputerSystemProduct := ([\<lparr>UUID = ''4C4C4544''\<rparr>], None),
        exec_Output := (\<lambda>command params. (bytes_of ''4C4C4544'', None))\<rparr>"



section \<open>Properties\<close>

subsection \<open>The readiness waiter\<close>

lemma waitForService_loop_found:
  "\<forall>j<k. \<not> (snd (service j) = None \<and> State (fst (service j)) = Running) \<Longrightarrow>
   snd (service k) = None \<and> State (fst (service k)) = Running \<Longrightarrow>
   attempt + k \<le> serviceRetry \<Longrightarrow>
   waitForService_loop service attempt =
     (None, concat (replicate k [ServiceQuery, Sleep serviceRetryInterval]) @ [ServiceQuery])"
proof (induction k arbitrary: service attempt)
  case 0
  obtain st er where s0: "service 0 = (st, er)" by (cases "service 0")
  with "0.prems"(2) have "er = None" "State st = Running" by simp_all
  with s0 "0.prems"(3) show ?case
    by (subst waitForService_loop.simps) simp
next
  case (Suc k)
  obtain st er where s0: "service 0 = (st, er)" by (cases "service 0")
  from Suc.prems(1) have "\<not> (snd (service 0) = None \<and> State (fst (service 0)) = Running)"
    by blast
  with s0 have first: "\<not> (er = None \<and> State st = Running)" by simp
  have rest: "\<forall>j<k. \<not> (snd ((service \<circ> Suc) j) = None \<and> State (fst ((service \<circ> Suc) j)) = Running)"
    using Suc.prems(1) by simp
  have hit: "snd ((service \<circ> Suc) k) = None \<and> State (fst ((service \<circ> Suc) k)) = Running"
    using Suc.prems(2) by simp
  have bound: "(attempt + 1) + k \<le> serviceRetry"
    using Suc.prems(3) by simp
  have IH: "waitForService_loop (service \<circ> Suc) (attempt + 1) =
     (None, concat (replicate k [ServiceQuery, Sleep serviceRetryInterval]) @ [ServiceQuery])"
    by (rule Suc.IH [OF rest hit bound])
  have le: "attempt \<le> serviceRetry" using Suc.prems(3) by simp
  show ?case
    using first le s0 IH
    by (subst waitForService_loop.simps) simp
qed

lemma waitForService_loop_exhausted:
  "\<forall>j<n. \<not> (snd (service j) = None \<and> State (fst (service j)) = Running) \<Longrightarrow>
   attempt + n = Suc serviceRetry \<Longrightarrow>
   waitForService_loop service attempt =
     (Some timeoutError, concat (replicate n [ServiceQuery, Sleep serviceRetryInterval]))"
proof (induction n arbitrary: service attempt)
  case 0
  then show ?case
    by (subst waitForService_loop.simps) simp
next
  case (Suc n)
  obtain st er where s0: "service 0 = (st, er)" by (cases "service 0")
  from Suc.prems(1) have "\<not> (snd (service 0) = None \<and> State (fst (service 0)) = Running)"
    by blast
  with s0 have first: "\<not> (er = None \<and> State st = Running)" by simp
  have rest: "\<forall>j<n. \<not> (snd ((service \<circ> Suc) j) = None \<and> State (fst ((service \<circ> Suc) j)) = Running)"
    using Suc.prems(1) by simp
  have bound: "(attempt + 1) + n = Suc serviceRetry"
    using Suc.prems(2) by simp
  have IH: "waitForService_loop (service \<circ> Suc) (attempt + 1) =
     (Some timeoutError, concat (replicate n [ServiceQuery, Sleep serviceRetryInterval]))"
    by (rule Suc.IH [OF rest bound])
  have le: "attempt \<le> serviceRetry" using Suc.prems(2) by simp
  show ?case
    using first le s0 IH
    by (subst waitForService_loop.simps) simp
qed

lemma waitForService_exhausted:
  "\<forall>j<5. \<not> (snd (service j) = None \<and> State (fst (service j)) = Running) \<Longrightarrow>
   waitForService service =
     (Some timeoutError, concat (replicate 5 [ServiceQuery, Sleep 15]))"
  using waitForService_loop_exhausted [of 5 service 1]
  by (simp add: waitForService_def serviceRetry_def serviceRetryInterval_def)

lemma waitForService_first_poll:
  "snd (service 0) = None \<and> State (fst (service 0)) = Running \<Longrightarrow>
   waitForService service = (None, [ServiceQuery])"
  using waitForService_loop_found [of 0 service 1]
  by (simp add: waitForService_def serviceRetry_def)

lemma count_queries_replicate:
  "length (filter (\<lambda>e. e = ServiceQuery) (concat (replicate k [ServiceQuery, Sleep d]))) = k"
  by (induction k) simp_all


text \<open>
  C5. \<^verbatim>\<open>waitForService\<close> queries the status at most 5 times, sleeping 15 seconds after
  each attempt that did not see the service running. It returns no error exactly when
  one of the first 5 answers is free of error and reports \<open>Running\<close>, and then it stops
  at the first such answer: the attempts before it, whether they failed with an error or
  reported another state, are each followed by the sleep and the next attempt. When none
  of the 5 answers reports \<open>Running\<close> it returns the timeout error after 5 queries.
\<close>

theorem waitForService_attempts:
  "(fst (waitForService service) = None \<longleftrightarrow>
      (\<exists>k<5. snd (service k) = None \<and> State (fst (service k)) = Running))
   \<and> (\<forall>k<5. (snd (service k) = None \<and> State (fst (service k)) = Running)
          \<and> (\<forall>j<k. \<not> (snd (service j) = None \<and> State (fst (service j)) = Running))
        \<longrightarrow> waitForService service =
              (None, concat (replicate k [ServiceQuery, Sleep 15]) @ [ServiceQuery]))
   \<and> (fst (waitForService service) \<noteq> None \<longrightarrow>
        waitForService service =
          (Some (Error ''Failed to wait for WMI to get into Running status''),
           concat (replicate 5 [ServiceQuery, Sleep 15])))
   \<and> length (filter (\<lambda>e. e = ServiceQuery) (snd (waitForService service))) \<le> 5"
proof -
  let ?ok = "\<lambda>k. snd (service k) = None \<and> State (fst (service k)) = Running"
  have found: "waitForService service =
      (None, concat (replicate k [ServiceQuery, Sleep 15]) @ [ServiceQuery])"
    if "k < 5" "?ok k" "\<forall>j<k. \<not> ?ok j" for k
    using waitForService_loop_found [of k service 1] that
    by (simp add: waitForService_def serviceRetry_def serviceRetryInterval_def)
  have exhausted: "waitForService service =
      (Some timeoutError, concat (replicate 5 [ServiceQuery, Sleep 15]))"
    if "\<forall>j<5. \<not> ?ok j"
    using waitForService_loop_exhausted [of 5 service 1] that
    by (simp add: waitForService_def serviceRetry_def serviceRetryInterval_def)
  have least: "\<exists>k<5. ?ok k \<and> (\<forall>j<k. \<not> ?ok j)" if "\<exists>k<5. ?ok k"
  proof -
    from that obtain k where k: "k < 5" "?ok k" by blast
    define m where "m = (LEAST i. ?ok i)"
    have "?ok m" unfolding m_def by (rule LeastI [of ?ok k]) (rule k(2))
    moreover have "m \<le> k" unfolding m_def by (rule Least_le [of ?ok k]) (rule k(2))
    moreover have "\<forall>j<m. \<not> ?ok j" unfolding m_def using not_less_Least by blast
    ultimately show ?thesis using k(1) by (intro exI [of _ m]) simp
  qed
  have iff: "fst (waitForService service) = None \<longleftrightarrow> (\<exists>k<5. ?ok k)"
  proof
    assume none: "fst (waitForService service) = None"
    show "\<exists>k<5. ?ok k"
    proof (rule ccontr)
      assume "\<not> (\<exists>k<5. ?ok k)"
      then have "\<forall>j<5. \<not> ?ok j" by blast
      from exhausted [OF this] none show False by simp
    qed
  next
    assume "\<exists>k<5. ?ok k"
    from least [OF this] obtain k where "k < 5" "?ok k" "\<forall>j<k. \<not> ?ok j" by blast
    from found [OF this] show "fst (waitForService service) = None" by simp
  qed
  have timeout: "waitForService service =
      (Some (Error ''Failed to wait for WMI to get into Running status''),
       concat (replicate 5 [ServiceQuery, Sleep 15]))"
    if "fst (waitForService service) \<noteq> None"
  proof -
    from that iff have "\<not> (\<exists>k<5. ?ok k)" by simp
    then have "\<forall>j<5. \<not> ?ok j" by simp
    from exhausted [OF this] show ?thesis by (simp only: timeoutError_def)
  qed
  have count: "length (filter (\<lambda>e. e = ServiceQuery) (snd (waitForService service))) \<le> 5"
  proof (cases "\<exists>k<5. ?ok k")
    case True
    from least [OF this] obtain k where k: "k < 5" "?ok k" "\<forall>j<k. \<not> ?ok j" by blast
    have "waitForService service =
      (None, concat (replicate k [ServiceQuery, Sleep 15]) @ [ServiceQuery])"
      by (rule found [OF k])
    then have "length (filter (\<lambda>e. e = ServiceQuery) (snd (waitForService service))) = Suc k"
      by (simp add: count_queries_replicate)
    with k(1) show ?thesis by simp
  next
    case False
    then have "\<forall>j<5. \<not> ?ok j" by blast
    from exhausted [OF this]
    have "length (filter (\<lambda>e. e = ServiceQuery) (snd (waitForService service))) = 5"
      by (simp only: snd_conv count_queries_replicate)
    then show ?thesis by simp
  qed
  from found have found': "\<forall>k<5. ?ok k \<and> (\<forall>j<k. \<not> ?ok j) \<longrightarrow> waitForService service =
      (None, concat (replicate k [ServiceQuery, Sleep 15]) @ [ServiceQuery])"
    by blast
  from timeout have timeout': "fst (waitForService service) \<noteq> None \<longrightarrow> waitForService service =
      (Some (Error ''Failed to wait for WMI to get into Running status''),
       concat (replicate 5 [ServiceQuery, Sleep 15]))"
    by (rule impI)
  show ?thesis
    by (intro conjI) (rule iff, rule found', rule timeout', rule count)
qed


text \<open>Two runs: an error, a pending state and then \<open>Running\<close>; and a service that never
  gets out of \<open>StartPending\<close>.\<close>

theorem waitForService_attempts_witness:
  "waitForService
     (\<lambda>n. if n = 0 then (\<lparr>State = Stopped\<rparr>, Some (Error ''access denied''))
          else if n = 1 then (\<lparr>State = StartPending\<rparr>, None)
          else (\<lparr>State = Running\<rparr>, None))
     = (None, [ServiceQuery, Sleep 15, ServiceQuery, Sleep 15, ServiceQuery])
   \<and> waitForService (\<lambda>n. (\<lparr>State = StartPending\<rparr>, None))
     = (Some (Error ''Failed to wait for WMI to get into Running status''),
        [ServiceQuery, Sleep 15, ServiceQuery, Sleep 15, ServiceQuery, Sleep 15,
         ServiceQuery, Sleep 15, ServiceQuery, Sleep 15])"
proof
  let ?s = "\<lambda>n::nat. if n = 0 then (\<lparr>State = Stopped\<rparr>, Some (Error ''access denied''))
          else if n = 1 then (\<lparr>State = StartPending\<rparr>, None)
          else (\<lparr>State = Running\<rparr>, None)"
  have "\<forall>j<2. \<not> (snd (?s j) = None \<and> State (fst (?s j)) = Running)"
    by (simp add: less_2_cases_iff)
  moreover have "snd (?s 2) = None \<and> State (fst (?s 2)) = Running" by simp
  moreover have "(2::nat) < 5" by simp
  ultimately have "waitForService ?s =
      (None, concat (replicate 2 [ServiceQuery, Sleep 15]) @ [ServiceQuery])"
    using waitForService_attempts [of ?s] by blast
  then show "waitForService ?s =
      (None, [ServiceQuery, Sleep 15, ServiceQuery, Sleep 15, ServiceQuery])"
    by (simp add: numeral_2_eq_2)
next
  let ?s = "\<lambda>n::nat. (\<lparr>State = StartPending\<rparr>, None :: error option)"
  have "\<not> (\<exists>k<5. snd (?s k) = None \<and> State (fst (?s k)) = Running)" by simp
  then have "fst (waitForService ?s) \<noteq> None"
    using waitForService_attempts [of ?s] by blast
  then have "waitForService ?s =
      (Some (Error ''Failed to wait for WMI to get into Running status''),
       concat (replicate 5 [ServiceQuery, Sleep 15]))"
    using waitForService_attempts [of ?s] by blast
  then show "waitForService ?s =
      (Some (Error ''Failed to wait for WMI to get into Running status''),
        [ServiceQuery, Sleep 15, ServiceQuery, Sleep 15, ServiceQuery, Sleep 15,
         ServiceQuery, Sleep 15, ServiceQuery, Sleep 15])"
    by (simp add: eval_nat_numeral)
qed

subsection \<open>Digest and encoding\<close>

lemma wql_neq_wmic: "wql \<noteq> wmic"
  by (simp add: wql_def wmic_def)

lemma length_md5_Sum: "length (md5_Sum m) = 16"
  by (simp add: md5_Sum_def bytes_le32_def split: prod.splits)

lemma length_EncodeToString: "length (EncodeToString bs) = 4 * ((length bs + 2) div 3)"
proof (induction bs rule: EncodeToString.induct)
  case (4 a b c rest)
  have "(length (a # b # c # rest) + 2) div 3 = Suc ((length rest + 2) div 3)"
    by simp
  with "4.IH" show ?case by simp
qed simp_all

lemma length_digest: "length (EncodeToString (md5_Sum m)) = 24"
  by (simp add: length_EncodeToString length_md5_Sum)

lemma digest_not_empty: "EncodeToString (md5_Sum m) \<noteq> []"
  using length_digest [of m] by auto

text \<open>The encoding is reversible: different digests have different encodings.\<close>

lemma encodeStd_distinct: "distinct encodeStd"
  by (simp add: encodeStd_def)

lemma encodeStd_length: "length encodeStd = 64"
  by (simp add: encodeStd_def)

lemma encodeStd_no_pad: "CHR ''='' \<notin> set encodeStd"
  by (simp add: encodeStd_def)

lemma encodeStd_nth_inj:
  "i < 64 \<Longrightarrow> j < 64 \<Longrightarrow> encodeStd ! i = encodeStd ! j \<longleftrightarrow> i = j"
  using nth_eq_iff_index_eq [OF encodeStd_distinct, of i j] by (simp add: encodeStd_length)

lemma encodeStd_nth_no_pad: "i < 64 \<Longrightarrow> encodeStd ! i \<noteq> CHR ''=''"
proof
  assume "i < 64" and eq: "encodeStd ! i = CHR ''=''"
  then have "encodeStd ! i \<in> set encodeStd"
    by (intro nth_mem) (simp add: encodeStd_length)
  with eq encodeStd_no_pad show False by simp
qed

lemma unat_byte_bound: "unat (a :: byte) < 256"
  using unsigned_less [of a, where 'a = nat] by simp

lemma sextet_bounds:
  "unat (a :: byte) div 4 < 64"
  "unat (a :: byte) mod 4 * 16 + unat (b :: byte) div 16 < 64"
  "unat (b :: byte) mod 16 * 4 + unat (c :: byte) div 64 < 64"
  "unat (c :: byte) mod 64 < 64"
  "unat (a :: byte) mod 4 * 16 < 64"
  "unat (b :: byte) mod 16 * 4 < 64"
proof -
  have a: "unat a < 256" and b: "unat b < 256" and c: "unat c < 256"
    by (rule unat_byte_bound)+
  show "unat a div 4 < 64" using a by simp
  have a4: "unat a mod 4 < 4" and b16: "unat b mod 16 < 16" by simp_all
  have b': "unat b div 16 < 16" using b by simp
  have c': "unat c div 64 < 4" using c by simp
  show "unat a mod 4 * 16 + unat b div 16 < 64" using a4 b' by linarith
  show "unat b mod 16 * 4 + unat c div 64 < 64" using b16 c' by linarith
  show "unat c mod 64 < 64" by simp
  show "unat a mod 4 * 16 < 64" using a4 by linarith
  show "unat b mod 16 * 4 < 64" using b16 by linarith
qed


lemma radix_split:
  fixes x y x' y' k :: nat
  assumes "y < k" "y' < k" "x * k + y = x' * k + y'"
  shows "x = x' \<and> y = y'"
proof -
  have "(x * k + y) div k = x" "(x' * k + y') div k = x'"
    using assms(1,2) by simp_all
  with assms(3) have "x = x'" by simp
  with assms(3) show ?thesis by simp
qed

lemma byte_from_parts:
  fixes a a' :: byte
  assumes "unat a div k = unat a' div k" "unat a mod k = unat a' mod k"
  shows "a = a'"
proof -
  have "unat a = unat a' div k * k + unat a' mod k"
    using div_mult_mod_eq [of "unat a" k] by (simp only: assms)
  then have "unat a = unat a'"
    by (simp only: div_mult_mod_eq)
  then show ?thesis by (rule word_unat_eq_iff [THEN iffD2])
qed

lemma sextets_inj:
  fixes a b c a' b' c' :: byte
  assumes "encodeStd ! (unat a div 4) = encodeStd ! (unat a' div 4)"
    "encodeStd ! (unat a mod 4 * 16 + unat b div 16)
       = encodeStd ! (unat a' mod 4 * 16 + unat b' div 16)"
    "encodeStd ! (unat b mod 16 * 4 + unat c div 64)
       = encodeStd ! (unat b' mod 16 * 4 + unat c' div 64)"
    "encodeStd ! (unat c mod 64) = encodeStd ! (unat c' mod 64)"
  shows "a = a' \<and> b = b' \<and> c = c'"
proof -
  have 1: "unat a div 4 = unat a' div 4"
    using assms(1) by (simp add: encodeStd_nth_inj sextet_bounds)
  have 2: "unat a mod 4 * 16 + unat b div 16 = unat a' mod 4 * 16 + unat b' div 16"
    using assms(2) by (simp add: encodeStd_nth_inj sextet_bounds)
  have 3: "unat b mod 16 * 4 + unat c div 64 = unat b' mod 16 * 4 + unat c' div 64"
    using assms(3) by (simp add: encodeStd_nth_inj sextet_bounds)
  have 4: "unat c mod 64 = unat c' mod 64"
    using assms(4) by (simp add: encodeStd_nth_inj sextet_bounds)
  have b16: "unat b div 16 < 16" "unat b' div 16 < 16"
    using unat_byte_bound [of b] unat_byte_bound [of b'] by simp_all
  have c64: "unat c div 64 < 4" "unat c' div 64 < 4"
    using unat_byte_bound [of c] unat_byte_bound [of c'] by simp_all
  from radix_split [OF b16 2] have 5: "unat a mod 4 = unat a' mod 4"
    and 6: "unat b div 16 = unat b' div 16" by simp_all
  from radix_split [OF c64 3] have 7: "unat b mod 16 = unat b' mod 16"
    and 8: "unat c div 64 = unat c' div 64" by simp_all
  show ?thesis
    using byte_from_parts [OF 1 5] byte_from_parts [OF 6 7] byte_from_parts [OF 8 4]
    by simp
qed


lemma encode_one_inj:
  fixes a a' :: byte
  assumes "encodeStd ! (unat a div 4) = encodeStd ! (unat a' div 4)"
    "encodeStd ! (unat a mod 4 * 16) = encodeStd ! (unat a' mod 4 * 16)"
  shows "a = a'"
proof -
  have 1: "unat a div 4 = unat a' div 4"
    using assms(1) by (simp add: encodeStd_nth_inj sextet_bounds)
  have "unat a mod 4 * 16 = unat a' mod 4 * 16"
    using assms(2) by (simp add: encodeStd_nth_inj sextet_bounds)
  then have 2: "unat a mod 4 = unat a' mod 4" by simp
  show ?thesis by (rule byte_from_parts [OF 1 2])
qed

lemma encode_two_inj:
  fixes a b a' b' :: byte
  assumes "encodeStd ! (unat a div 4) = encodeStd ! (unat a' div 4)"
    "encodeStd ! (unat a mod 4 * 16 + unat b div 16)
       = encodeStd ! (unat a' mod 4 * 16 + unat b' div 16)"
    "encodeStd ! (unat b mod 16 * 4) = encodeStd ! (unat b' mod 16 * 4)"
  shows "a = a' \<and> b = b'"
proof -
  have 1: "unat a div 4 = unat a' div 4"
    using assms(1) by (simp add: encodeStd_nth_inj sextet_bounds)
  have 2: "unat a mod 4 * 16 + unat b div 16 = unat a' mod 4 * 16 + unat b' div 16"
    using assms(2) by (simp add: encodeStd_nth_inj sextet_bounds)
  have "unat b mod 16 * 4 = unat b' mod 16 * 4"
    using assms(3) by (simp add: encodeStd_nth_inj sextet_bounds)
  then have 3: "unat b mod 16 = unat b' mod 16" by simp
  have b16: "unat b div 16 < 16" "unat b' div 16 < 16"
    using unat_byte_bound [of b] unat_byte_bound [of b'] by simp_all
  from radix_split [OF b16 2] have 5: "unat a mod 4 = unat a' mod 4"
    and 6: "unat b div 16 = unat b' div 16" by simp_all
  show ?thesis
    using byte_from_parts [OF 1 5] byte_from_parts [OF 6 3] by simp
qed

lemma EncodeToString_inj: "EncodeToString xs = EncodeToString ys \<Longrightarrow> xs = ys"
proof (induction xs arbitrary: ys rule: EncodeToString.induct)
  case 1
  then show ?case by (cases ys rule: EncodeToString.cases) simp_all
next
  case (2 a)
  show ?case
  proof (cases ys rule: EncodeToString.cases)
    case 1
    with "2.prems" show ?thesis by simp
  next
    case (2 a')
    with "2.prems" show ?thesis by (auto dest: encode_one_inj)
  next
    case (3 a' b')
    with "2.prems" encodeStd_nth_no_pad [OF sextet_bounds(6) [of b']] show ?thesis
      by simp
  next
    case (4 a' b' c' rest')
    with "2.prems" encodeStd_nth_no_pad [OF sextet_bounds(3) [of b' c']] show ?thesis
      by simp
  qed
next
  case (3 a b)
  show ?case
  proof (cases ys rule: EncodeToString.cases)
    case 1
    with "3.prems" show ?thesis by simp
  next
    case (2 a')
    with "3.prems" encodeStd_nth_no_pad [OF sextet_bounds(6) [of b]] show ?thesis
      by simp
  next
    case (3 a' b')
    with "3.prems" show ?thesis by (auto dest: encode_two_inj)
  next
    case (4 a' b' c' rest')
    with "3.prems" encodeStd_nth_no_pad [OF sextet_bounds(4) [of c']] show ?thesis
      by simp
  qed
next
  case (4 a b c rest)
  show ?case
  proof (cases ys rule: EncodeToString.cases)
    case 1
    with "4.prems" show ?thesis by simp
  next
    case (2 a')
    with "4.prems" encodeStd_nth_no_pad [OF sextet_bounds(3) [of b c]] show ?thesis
      by simp
  next
    case (3 a' b')
    with "4.prems" encodeStd_nth_no_pad [OF sextet_bounds(4) [of c]] show ?thesis
      by simp
  next
    case (4 a' b' c' rest')
    with "4.prems" have heads: "encodeStd ! (unat a div 4) = encodeStd ! (unat a' div 4)"
      "encodeStd ! (unat a mod 4 * 16 + unat b div 16)
         = encodeStd ! (unat a' mod 4 * 16 + unat b' div 16)"
      "encodeStd ! (unat b mod 16 * 4 + unat c div 64)
         = encodeStd ! (unat b' mod 16 * 4 + unat c' div 64)"
      "encodeStd ! (unat c mod 64) = encodeStd ! (unat c' mod 64)"
      and tails: "EncodeToString rest = EncodeToString rest'"
      by simp_all
    from sextets_inj [OF heads] "4.IH" [OF tails] 4 show ?thesis by simp
  qed
qed

lemma gobEncode_succeeds: "gobEncode typeId s = (fst (gobEncode typeId s), None)"
  by (simp add: gobEncode_def)

subsection \<open>The registry of type ids\<close>


lemma gobTypeIdOf_new:
  "typeIds g name = None \<Longrightarrow>
   gobTypeIdOf g name =
     (nextId g, g\<lparr>typeIds := (typeIds g)(name \<mapsto> nextId g), nextId := nextId g + 1\<rparr>)"
  by (simp add: gobTypeIdOf_def)

lemma gobTypeIdOf_registers:
  "typeIds (snd (gobTypeIdOf g name)) name = Some (fst (gobTypeIdOf g name))"
  by (simp add: gobTypeIdOf_def split: option.splits)


lemma gobEncoder_unfold:
  "gobEncoder g s =
     ((fst (gobEncode (fst (gobTypeIdOf g (fst s))) s), None), snd (gobTypeIdOf g (fst s)))"
  by (simp add: gobEncoder_def gobEncode_def case_prod_beta)




lemma gobEncoder_registers:
  "typeIds (snd (gobEncoder g s)) (fst s) = Some (fst (gobTypeIdOf g (fst s)))"
  by (simp add: gobEncoder_unfold gobTypeIdOf_registers)


subsection \<open>The structured query\<close>

lemma GetSingleWMIObject_failed:
  "err \<noteq> None \<Longrightarrow>
   GetSingleWMIObject cls zero (wmiData, err) = ((zero, err), [WmiQuery cls])"
  by (simp add: GetSingleWMIObject_def GetWMIData_def)

lemma GetSingleWMIObject_no_records:
  "GetSingleWMIObject cls zero ([], err) = ((zero, err), [WmiQuery cls])"
  by (simp add: GetSingleWMIObject_def GetWMIData_def)

lemma GetSingleWMIObject_first:
  "GetSingleWMIObject cls zero (r # rest, None) = ((r, None), [WmiQuery cls])"
  by (simp add: GetSingleWMIObject_def GetWMIData_def)

lemma getWMIObject_failed:
  "err \<noteq> None \<Longrightarrow>
   getWMIObject enc cls zero view (wmiData, err) g = ((([], zero, err), [WmiQuery cls]), g)"
  by (simp add: getWMIObject_def GetSingleWMIObject_failed)

lemma getWMIObject_no_records:
  "getWMIObject enc cls zero view ([], None) g =
     (case enc g (view zero) of
        ((b, None), g') \<Rightarrow> (((EncodeToString (md5_Sum b), zero, None), [WmiQuery cls]), g')
      | ((b, Some e), g') \<Rightarrow> ((([], zero, Some e), [WmiQuery cls]), g'))"
  by (simp add: getWMIObject_def GetSingleWMIObject_no_records
      split: prod.splits option.splits)

lemma getWMIObject_first:
  "getWMIObject enc cls zero view (r # rest, None) g =
     (case enc g (view r) of
        ((b, None), g') \<Rightarrow> (((EncodeToString (md5_Sum b), r, None), [WmiQuery cls]), g')
      | ((b, Some e), g') \<Rightarrow> ((([], r, Some e), [WmiQuery cls]), g'))"
  by (simp add: getWMIObject_def GetSingleWMIObject_first split: prod.splits option.splits)

lemma getWMIObject_gob_first:
  "getWMIObject gobEncoder cls zero view (r # rest, None) g =
     (((EncodeToString (md5_Sum (fst (gobEncode (fst (gobTypeIdOf g (fst (view r)))) (view r)))),
        r, None), [WmiQuery cls]),
      snd (gobTypeIdOf g (fst (view r))))"
  by (simp add: getWMIObject_first gobEncoder_unfold)


text \<open>The gob stream and the digest of the record that holds the UUID \<^verbatim>\<open>4C4C4544\<close>,
  under the type ids 64 and 65.\<close>

lemma uuid_gob_bytes_64:
  "fst (gobEncode 64 (gob_Win32_ComputerSystemProduct \<lparr>UUID = ''4C4C4544''\<rparr>)) =
     [49, 127, 3, 1, 1, 27, 87, 105, 110, 51, 50, 95, 67, 111, 109, 112,
      117, 116, 101, 114, 83, 121, 115, 116, 101, 109, 80, 114, 111, 100, 117,
      99, 116, 1, 255, 128, 0, 1, 1, 1, 4, 85, 85, 73, 68, 1, 12, 0, 0, 0, 13,
      255, 128, 1, 8, 52, 67, 52, 67, 52, 53, 52, 52, 0]"
  by (simp add: gobEncode_def
      gob_Win32_ComputerSystemProduct_def gobMessage_def encodeInt_def encodeUint_def
      encodeWireType_def encodeFieldType_def encodeString_def bytes_of_def beBytes.simps)

lemma uuid_gob_bytes_65:
  "fst (gobEncode 65 (gob_Win32_ComputerSystemProduct \<lparr>UUID = ''4C4C4544''\<rparr>)) =
     [50, 255, 129, 3, 1, 1, 27, 87, 105, 110, 51, 50, 95, 67, 111, 109, 112,
      117, 116, 101, 114, 83, 121, 115, 116, 101, 109, 80, 114, 111, 100, 117,
      99, 116, 1, 255, 130, 0, 1, 1, 1, 4, 85, 85, 73, 68, 1, 12, 0, 0, 0, 13,
      255, 130, 1, 8, 52, 67, 52, 67, 52, 53, 52, 52, 0]"
  by (simp add: gobEncode_def
      gob_Win32_ComputerSystemProduct_def gobMessage_def encodeInt_def encodeUint_def
      encodeWireType_def encodeFieldType_def encodeString_def bytes_of_def beBytes.simps)

lemma uuid_gob_digest_64:
  "EncodeToString (md5_Sum
     [49, 127, 3, 1, 1, 27, 87, 105, 110, 51, 50, 95, 67, 111, 109, 112,
      117, 116, 101, 114, 83, 121, 115, 116, 101, 109, 80, 114, 111, 100, 117,
      99, 116, 1, 255, 128, 0, 1, 1, 1, 4, 85, 85, 73, 68, 1, 12, 0, 0, 0, 13,
      255, 128, 1, 8, 52, 67, 52, 67, 52, 53, 52, 52, 0]) = ''U9axw3HZm6pxZIHVSpitcA==''"
  by code_simp

lemma uuid_gob_digest_65:
  "EncodeToString (md5_Sum
     [50, 255, 129, 3, 1, 1, 27, 87, 105, 110, 51, 50, 95, 67, 111, 109, 112,
      117, 116, 101, 114, 83, 121, 115, 116, 101, 109, 80, 114, 111, 100, 117,
      99, 116, 1, 255, 130, 0, 1, 1, 1, 4, 85, 85, 73, 68, 1, 12, 0, 0, 0, 13,
      255, 130, 1, 8, 52, 67, 52, 67, 52, 53, 52, 52, 0]) = ''POner26OB6ICoBPsqkF50Q==''"
  by code_simp

lemma uuid_view_class:
  "fst (gob_Win32_ComputerSystemProduct r) = ''Win32_ComputerSystemProduct''"
  by (simp add: gob_Win32_ComputerSystemProduct_def)


lemma uuid_digest_fresh_64:
  "getWMIObject gobEncoder ''Win32_ComputerSystemProduct'' zero_Win32_ComputerSystemProduct
     gob_Win32_ComputerSystemProduct ([\<lparr>UUID = ''4C4C4544''\<rparr>], None) (freshRegistry 64)
   = (((''U9axw3HZm6pxZIHVSpitcA=='', \<lparr>UUID = ''4C4C4544''\<rparr>, None),
       [WmiQuery ''Win32_ComputerSystemProduct'']),
      \<lparr>typeIds = [''Win32_ComputerSystemProduct'' \<mapsto> 64], nextId = 65\<rparr>)"
  by (simp add: getWMIObject_gob_first uuid_view_class gobTypeIdOf_def freshRegistry_def
      uuid_gob_bytes_64 uuid_gob_digest_64)

lemma uuid_digest_fresh_65:
  "getWMIObject gobEncoder ''Win32_ComputerSystemProduct'' zero_Win32_ComputerSystemProduct
     gob_Win32_ComputerSystemProduct ([\<lparr>UUID = ''4C4C4544''\<rparr>], None) (freshRegistry 65)
   = (((''POner26OB6ICoBPsqkF50Q=='', \<lparr>UUID = ''4C4C4544''\<rparr>, None),
       [WmiQuery ''Win32_ComputerSystemProduct'']),
      \<lparr>typeIds = [''Win32_ComputerSystemProduct'' \<mapsto> 65], nextId = 66\<rparr>)"
  by (simp add: getWMIObject_gob_first uuid_view_class gobTypeIdOf_def freshRegistry_def
      uuid_gob_bytes_65 uuid_gob_digest_65)

text \<open>
  C4, as the spec has it: whenever the query returns no record, \<^verbatim>\<open>GetSingleWMIObject\<close>
  returns an error. It does not: a query that succeeds with an empty result gives the
  zero-valued record and no error.
\<close>

theorem GetSingleWMIObject_no_records_counterexample:
  "GetSingleWMIObject ''Win32_Processor'' zero_Win32_Processor ([], None)
     = ((zero_Win32_Processor, None), [WmiQuery ''Win32_Processor''])
   \<and> \<not> (snd (fst (GetSingleWMIObject ''Win32_Processor'' zero_Win32_Processor ([], None)))
          \<noteq> None)"
  by (simp add: GetSingleWMIObject_def GetWMIData_def)

text \<open>
  C4, amended. When the query returns no record, \<^verbatim>\<open>GetSingleWMIObject\<close> returns the
  zero-valued record together with whatever error the query returned, which is none
  when the query succeeded. When the query fails, whatever it left in the slice,
  \<^verbatim>\<open>GetSingleWMIObject\<close> returns the zero-valued record with that error, and
  \<^verbatim>\<open>getWMIObject\<close> hands the error on with the empty string in place of the digest,
  without calling the encoder: the caller goes on without a hash for the category.
\<close>

theorem GetSingleWMIObject_empty_record:
  "fst (GetSingleWMIObject cls zero ([], err)) = (zero, err)
   \<and> (err \<noteq> None \<longrightarrow>
        fst (GetSingleWMIObject cls zero (wmiData, err)) = (zero, err)
        \<and> fst (fst (getWMIObject enc cls zero view (wmiData, err) g)) = ([], zero, err)
        \<and> snd (getWMIObject enc cls zero view (wmiData, err) g) = g)"
  by (simp add: GetSingleWMIObject_no_records GetSingleWMIObject_failed getWMIObject_failed)

theorem GetSingleWMIObject_empty_record_witness:
  "Some (Error ''Invalid class'') \<noteq> None
   \<and> fst (GetSingleWMIObject ''Win32_BIOS'' zero_Win32_BIOS
            ([], Some (Error ''Invalid class''))) =
     (zero_Win32_BIOS, Some (Error ''Invalid class''))
   \<and> fst (fst (getWMIObject gobEncoder ''Win32_BIOS'' zero_Win32_BIOS gob_Win32_BIOS
            ([], Some (Error ''Invalid class'')) (freshRegistry 64))) =
     ([], zero_Win32_BIOS, Some (Error ''Invalid class''))
   \<and> snd (getWMIObject gobEncoder ''Win32_BIOS'' zero_Win32_BIOS gob_Win32_BIOS
            ([], Some (Error ''Invalid class'')) (freshRegistry 64)) = freshRegistry 64"
  using GetSingleWMIObject_empty_record
    [of "''Win32_BIOS''" zero_Win32_BIOS "Some (Error ''Invalid class'')" "[]"
        gobEncoder gob_Win32_BIOS "freshRegistry 64"]
  by simp




text \<open>
  C10. When the query succeeds and returns no record, \<^verbatim>\<open>getWMIObject\<close> encodes the
  zero-valued record: with \<open>b\<close> the bytes the encoder gives for it, the result is the
  base64 encoding, 24 characters long, of the MD5 sum of \<open>b\<close>, 16 bytes long, with no
  error; the gob encoder does give bytes for it, under every type id and from every
  state of the registry. So each of the six category functions, on the structured-query
  backend, returns that digest and not the empty string.
\<close>

theorem getWMIObject_zero_records_hashed:
  "(enc g (view zero) = ((b, None), g') \<longrightarrow>
      fst (fst (getWMIObject enc cls zero view ([], None) g))
        = (EncodeToString (md5_Sum b), zero, None)
      \<and> length (md5_Sum b) = 16 \<and> length (EncodeToString (md5_Sum b)) = 24)
   \<and> fst (fst (getWMIObject (\<lambda>g s. (gobEncode typeId s, g)) cls zero view ([], None) g))
       = (EncodeToString (md5_Sum (fst (gobEncode typeId (view zero)))), zero, None)
   \<and> fst (fst (getWMIObject gobEncoder cls zero view ([], None) h))
       = (EncodeToString (md5_Sum
            (fst (gobEncode (fst (gobTypeIdOf h (fst (view zero)))) (view zero)))), zero, None)
   \<and> (wmi_Win32_ComputerSystemProduct env = ([], None)
        \<and> gob_Encode env g (gob_Win32_ComputerSystemProduct zero_Win32_ComputerSystemProduct)
            = ((b1, None), g1)
      \<longrightarrow> fst (fst (csproductUuid env wql g)) = (EncodeToString (md5_Sum b1), None))
   \<and> (wmi_Win32_Processor env = ([], None)
        \<and> gob_Encode env g (gob_Win32_Processor zero_Win32_Processor) = ((b2, None), g2)
      \<longrightarrow> fst (fst (processorInfoHash env wql g)) = (EncodeToString (md5_Sum b2), None))
   \<and> (wmi_Win32_PhysicalMemory env = ([], None)
        \<and> gob_Encode env g (gob_Win32_PhysicalMemory zero_Win32_PhysicalMemory)
            = ((b3, None), g3)
      \<longrightarrow> fst (fst (memoryInfoHash env wql g)) = (EncodeToString (md5_Sum b3), None))
   \<and> (wmi_Win32_BIOS env = ([], None)
        \<and> gob_Encode env g (gob_Win32_BIOS zero_Win32_BIOS) = ((b4, None), g4)
      \<longrightarrow> fst (fst (biosInfoHash env wql g)) = (EncodeToString (md5_Sum b4), None))
   \<and> (wmi_Win32_ComputerSystem env = ([], None)
        \<and> gob_Encode env g (gob_Win32_ComputerSystem zero_Win32_ComputerSystem)
            = ((b5, None), g5)
      \<longrightarrow> fst (fst (systemInfoHash env wql g)) = (EncodeToString (md5_Sum b5), None))
   \<and> (wmi_Win32_DiskDrive env = ([], None)
        \<and> gob_Encode env g (gob_Win32_DiskDrive zero_Win32_DiskDrive) = ((b6, None), g6)
      \<longrightarrow> fst (fst (diskInfoHash env wql g)) = (EncodeToString (md5_Sum b6), None))"
  by (simp add: getWMIObject_no_records length_digest length_md5_Sum wql_neq_wmic
      csproductUuid_def processorInfoHash_def memoryInfoHash_def biosInfoHash_def
      systemInfoHash_def diskInfoHash_def gobEncode_def gobEncoder_unfold)

text \<open>The BIOS class answering with no record, on the example host.\<close>

theorem getWMIObject_zero_records_hashed_witness:
  "fst (fst (getWMIObject gobEncoder ''Win32_BIOS'' zero_Win32_BIOS gob_Win32_BIOS ([], None)
              (freshRegistry 64)))
     = (EncodeToString (md5_Sum (fst (gobEncode 64 (gob_Win32_BIOS zero_Win32_BIOS)))),
        zero_Win32_BIOS, None)
   \<and> length (EncodeToString (md5_Sum (fst (gobEncode 64 (gob_Win32_BIOS zero_Win32_BIOS)))))
       = 24
   \<and> fst (fst (biosInfoHash (exampleEnv\<lparr>wmi_Win32_BIOS := ([], None)\<rparr>) wql
                 (freshRegistry 64)))
     = (EncodeToString (md5_Sum (fst (gobEncode 64 (gob_Win32_BIOS zero_Win32_BIOS)))), None)"
proof -
  let ?b = "fst (gobEncode 64 (gob_Win32_BIOS zero_Win32_BIOS))"
  let ?g = "freshRegistry 64"
  let ?g' = "snd (gobEncoder ?g (gob_Win32_BIOS zero_Win32_BIOS))"
  let ?env = "exampleEnv\<lparr>wmi_Win32_BIOS := ([], None)\<rparr>"
  have enc: "gobEncoder ?g (gob_Win32_BIOS zero_Win32_BIOS) = ((?b, None), ?g')"
    by (simp add: gobEncoder_unfold gobTypeIdOf_def freshRegistry_def)
  have q: "wmi_Win32_BIOS ?env = ([], None)" by simp
  have e: "gob_Encode ?env ?g (gob_Win32_BIOS zero_Win32_BIOS) = ((?b, None), ?g')"
    using enc by (simp add: exampleEnv_def)
  show ?thesis
    using getWMIObject_zero_records_hashed
      [of gobEncoder ?g gob_Win32_BIOS zero_Win32_BIOS ?b ?g' "''Win32_BIOS''" _ _ ?env
          _ _ _ _ _ _ ?b ?g']
      enc q e
    by blast
qed

subsection \<open>The strategy selector\<close>

lemma compareComponents_lexicographic: "0 \<le> compareComponents xs ys \<longleftrightarrow> ys \<le> xs"
  by (induction xs ys rule: compareComponents.induct) auto

lemma parseVersion_threshold: "parseVersion WindowsServer2025Version = Some [10, 0, 26100]"
  by (simp add: parseVersion_def WindowsServer2025Version_def parseComponent_def isDigit_def)

lemma parseVersion_19041: "parseVersion ''10.0.19041'' = Some [10, 0, 19041]"
  by (simp add: parseVersion_def parseComponent_def isDigit_def)

lemma isWindowsServer2025OrLater_parsed:
  "isWindowsServer2025OrLater v =
     (case parseVersion v of
        None \<Rightarrow> (False, Some (Error ''invalid version''))
      | Some ns \<Rightarrow> ([10, 0, 26100] \<le> ns, None))"
  by (simp add: isWindowsServer2025OrLater_def VersionCompare_def parseVersion_threshold
      compareComponents_lexicographic split: option.splits)

lemma getPlatformVersion_events:
  "snd (getPlatformVersion env) = [WmiQuery ''Win32_OperatingSystem'']"
  by (simp add: getPlatformVersion_def getPlatformDetails_def GetSingleWMIObject_def
      GetWMIData_def case_prod_beta)

lemma getPlatformVersion_first:
  "wmi_Win32_OperatingSystem env = (os # rest, None) \<Longrightarrow>
   fst (getPlatformVersion env) = (Win32_OperatingSystem.Version os, None)"
  by (simp add: getPlatformVersion_def getPlatformDetails_def GetSingleWMIObject_def
      GetWMIData_def)

lemma getPlatformVersion_failed:
  "snd (wmi_Win32_OperatingSystem env) = Some e \<Longrightarrow>
   fst (getPlatformVersion env) = (notAvailableMessage env, Some e)"
  by (simp add: getPlatformVersion_def getPlatformDetails_def GetSingleWMIObject_def
      GetWMIData_def case_prod_beta)

lemma getWMIInterface_cases:
  "getWMIInterface env =
     (case snd (fst (getPlatformVersion env)) of
        Some e \<Rightarrow> (wmic, [WmiQuery ''Win32_OperatingSystem''])
      | None \<Rightarrow>
          (case parseVersion (fst (fst (getPlatformVersion env))) of
             None \<Rightarrow> (wmic, [WmiQuery ''Win32_OperatingSystem''])
           | Some ns \<Rightarrow> (if [10, 0, 26100] \<le> ns then wql else wmic,
                         [WmiQuery ''Win32_OperatingSystem''])))"
  by (simp add: getWMIInterface_def IsPlatformWindowsServer2025OrLater_def
      isPlatformWindowsServer2025OrLater_def isWindowsServer2025OrLater_parsed
      getPlatformVersion_events case_prod_beta split: option.splits)

lemma getWMIInterface_wmic_or_wql:
  "fst (getWMIInterface env) = wmic \<or> fst (getWMIInterface env) = wql"
  by (simp add: getWMIInterface_cases split: option.splits)


text \<open>
  C7. \<^verbatim>\<open>getWMIInterface\<close> returns \<open>WQL\<close> exactly when the platform version was
  detected without error and \<^verbatim>\<open>VersionCompare\<close> with \<^verbatim>\<open>10.0.26100\<close> gives a result of
  at least 0 without error, that is, when the version reads as a dotted list of numbers
  and that list is at or after \<open>[10, 0, 26100]\<close> in the component-wise order; in every
  other run it returns \<open>WMIC\<close>, in particular whenever the detection of the version
  fails. A host that reports \<^verbatim>\<open>10.0.26100\<close> gets \<open>WQL\<close>, one that reports
  \<^verbatim>\<open>10.0.19041\<close> gets \<open>WMIC\<close>.
\<close>

theorem getWMIInterface_threshold:
  "(fst (getWMIInterface env) = wql \<longleftrightarrow>
      (\<exists>v result. fst (getPlatformVersion env) = (v, None)
          \<and> VersionCompare v ''10.0.26100'' = (result, None) \<and> 0 \<le> result))
   \<and> (fst (getWMIInterface env) = wql \<longleftrightarrow>
      (\<exists>v ns. fst (getPlatformVersion env) = (v, None) \<and> parseVersion v = Some ns
          \<and> [10, 0, 26100] \<le> ns))
   \<and> (fst (getWMIInterface env) \<noteq> wql \<longrightarrow> fst (getWMIInterface env) = wmic)
   \<and> (snd (fst (getPlatformVersion env)) \<noteq> None \<longrightarrow> fst (getWMIInterface env) = wmic)
   \<and> (wmi_Win32_OperatingSystem env = (os # rest, None)
        \<and> Win32_OperatingSystem.Version os = ''10.0.26100''
      \<longrightarrow> fst (getWMIInterface env) = wql)
   \<and> (wmi_Win32_OperatingSystem env = (os # rest, None)
        \<and> Win32_OperatingSystem.Version os = ''10.0.19041''
      \<longrightarrow> fst (getWMIInterface env) = wmic)"
proof (intro conjI)
  show "fst (getWMIInterface env) = wql \<longleftrightarrow>
      (\<exists>v result. fst (getPlatformVersion env) = (v, None)
          \<and> VersionCompare v ''10.0.26100'' = (result, None) \<and> 0 \<le> result)"
    using wql_neq_wmic
    by (cases "fst (getPlatformVersion env)";
        cases "VersionCompare (fst (fst (getPlatformVersion env))) ''10.0.26100''")
       (auto simp: getWMIInterface_def IsPlatformWindowsServer2025OrLater_def
          isPlatformWindowsServer2025OrLater_def isWindowsServer2025OrLater_def
          WindowsServer2025Version_def case_prod_beta)
  show "fst (getWMIInterface env) = wql \<longleftrightarrow>
      (\<exists>v ns. fst (getPlatformVersion env) = (v, None) \<and> parseVersion v = Some ns
          \<and> [10, 0, 26100] \<le> ns)"
    using wql_neq_wmic
    by (cases "fst (getPlatformVersion env)")
       (auto simp: getWMIInterface_cases split: option.splits)
  show "fst (getWMIInterface env) \<noteq> wql \<longrightarrow> fst (getWMIInterface env) = wmic"
    using getWMIInterface_wmic_or_wql [of env] by blast
  show "snd (fst (getPlatformVersion env)) \<noteq> None \<longrightarrow> fst (getWMIInterface env) = wmic"
    by (auto simp: getWMIInterface_cases split: option.splits)
  show "wmi_Win32_OperatingSystem env = (os # rest, None)
        \<and> Win32_OperatingSystem.Version os = ''10.0.26100''
      \<longrightarrow> fst (getWMIInterface env) = wql"
    using parseVersion_threshold
    by (simp add: getWMIInterface_cases getPlatformVersion_first WindowsServer2025Version_def)
  show "wmi_Win32_OperatingSystem env = (os # rest, None)
        \<and> Win32_OperatingSystem.Version os = ''10.0.19041''
      \<longrightarrow> fst (getWMIInterface env) = wmic"
    by (simp add: getWMIInterface_cases getPlatformVersion_first parseVersion_19041)
qed

text \<open>The example host reports \<^verbatim>\<open>10.0.26100\<close>; on the failing host the query for the
  operating system fails; the third host reports \<^verbatim>\<open>10.0.19041\<close>.\<close>

theorem getWMIInterface_threshold_witness:
  "fst (getWMIInterface exampleEnv) = wql
   \<and> fst (getWMIInterface failingEnv) = wmic
   \<and> fst (getWMIInterface
        (exampleEnv\<lparr>wmi_Win32_OperatingSystem :=
           ([\<lparr>Win32_OperatingSystem.Caption = ''Microsoft Windows 10 Pro'',
              OperatingSystemSKU = 48, Win32_OperatingSystem.Version = ''10.0.19041''\<rparr>],
            None)\<rparr>)) = wmic"
proof (intro conjI)
  let ?os = "\<lparr>Win32_OperatingSystem.Caption = ''Microsoft Windows Server 2025 Datacenter'',
           OperatingSystemSKU = 8, Win32_OperatingSystem.Version = ''10.0.26100''\<rparr>"
  have "wmi_Win32_OperatingSystem exampleEnv = (?os # [], None)
        \<and> Win32_OperatingSystem.Version ?os = ''10.0.26100''"
    by (simp add: exampleEnv_def)
  then show "fst (getWMIInterface exampleEnv) = wql"
    using getWMIInterface_threshold [of exampleEnv ?os "[]"] by blast
next
  have "snd (wmi_Win32_OperatingSystem failingEnv) = Some (Error ''Invalid namespace'')"
    by (simp add: failingEnv_def)
  then have "snd (fst (getPlatformVersion failingEnv)) \<noteq> None"
    by (simp add: getPlatformVersion_failed)
  then show "fst (getWMIInterface failingEnv) = wmic"
    using getWMIInterface_threshold [of failingEnv] by blast
next
  let ?os = "\<lparr>Win32_OperatingSystem.Caption = ''Microsoft Windows 10 Pro'',
              OperatingSystemSKU = 48, Win32_OperatingSystem.Version = ''10.0.19041''\<rparr>"
  let ?env = "exampleEnv\<lparr>wmi_Win32_OperatingSystem := ([?os], None)\<rparr>"
  have "wmi_Win32_OperatingSystem ?env = (?os # [], None)
        \<and> Win32_OperatingSystem.Version ?os = ''10.0.19041''"
    by simp
  then show "fst (getWMIInterface ?env) = wmic"
    using getWMIInterface_threshold [of ?env ?os "[]"] by blast
qed

subsection \<open>The assembly of the fingerprint\<close>

lemma currentHwHash_connect_failed:
  "mgr_Connect env = Some err \<Longrightarrow> currentHwHash env = ((Map.empty, Some err), [MgrConnect])"
  by (simp add: currentHwHash_def)

lemma currentHwHash_open_failed:
  "mgr_Connect env = None \<Longrightarrow> mgr_OpenService env wmiServiceName = Some err \<Longrightarrow>
   currentHwHash env = ((Map.empty, Some err), [MgrConnect, OpenService wmiServiceName])"
  by (simp add: currentHwHash_def)

lemma currentHwHash_wait_failed:
  "mgr_Connect env = None \<Longrightarrow> mgr_OpenService env wmiServiceName = None \<Longrightarrow>
   fst (waitForService (service_Query env)) = Some err \<Longrightarrow>
   currentHwHash env =
     ((Map.empty, Some err),
      [MgrConnect, OpenService wmiServiceName] @ snd (waitForService (service_Query env)))"
  by (simp add: currentHwHash_def case_prod_beta)

lemma registryBefore_unfold:
  "registryBefore env w CsProduct = gob_Registry env"
  "registryBefore env w Processor =
     snd (categoryHash CsProduct env w (registryBefore env w CsProduct))"
  "registryBefore env w PhysicalMemory =
     snd (categoryHash Processor env w (registryBefore env w Processor))"
  "registryBefore env w BIOS =
     snd (categoryHash PhysicalMemory env w (registryBefore env w PhysicalMemory))"
  "registryBefore env w ComputerSystem =
     snd (categoryHash BIOS env w (registryBefore env w BIOS))"
  "registryBefore env w DiskDrive =
     snd (categoryHash ComputerSystem env w (registryBefore env w ComputerSystem))"
  by (simp_all add: registryBefore_def categoryOrder_def)

lemma currentHwHash_collect:
  assumes "mgr_Connect env = None" "mgr_OpenService env wmiServiceName = None"
    "fst (waitForService (service_Query env)) = None"
  shows "currentHwHash env =
    (([categoryKey CsProduct \<mapsto>
         fst (fst (fst (categoryHash CsProduct env (fst (getWMIInterface env))
           (registryBefore env (fst (getWMIInterface env)) CsProduct)))),
       categoryKey Processor \<mapsto>
         fst (fst (fst (categoryHash Processor env (fst (getWMIInterface env))
           (registryBefore env (fst (getWMIInterface env)) Processor)))),
       categoryKey PhysicalMemory \<mapsto>
         fst (fst (fst (categoryHash PhysicalMemory env (fst (getWMIInterface env))
           (registryBefore env (fst (getWMIInterface env)) PhysicalMemory)))),
       categoryKey BIOS \<mapsto>
         fst (fst (fst (categoryHash BIOS env (fst (getWMIInterface env))
           (registryBefore env (fst (getWMIInterface env)) BIOS)))),
       categoryKey ComputerSystem \<mapsto>
         fst (fst (fst (categoryHash ComputerSystem env (fst (getWMIInterface env))
           (registryBefore env (fst (getWMIInterface env)) ComputerSystem)))),
       ''hostname-info'' \<mapsto> fst (hostnameInfo env),
       ipAddressID \<mapsto> fst (primaryIpInfo env),
       ''macaddr-info'' \<mapsto> fst (macAddrInfo env),
       categoryKey DiskDrive \<mapsto>
         fst (fst (fst (categoryHash DiskDrive env (fst (getWMIInterface env))
           (registryBefore env (fst (getWMIInterface env)) DiskDrive))))], None),
     [MgrConnect, OpenService wmiServiceName] @ snd (waitForService (service_Query env))
       @ snd (getWMIInterface env)
       @ snd (fst (categoryHash CsProduct env (fst (getWMIInterface env))
           (registryBefore env (fst (getWMIInterface env)) CsProduct)))
       @ snd (fst (categoryHash Processor env (fst (getWMIInterface env))
           (registryBefore env (fst (getWMIInterface env)) Processor)))
       @ snd (fst (categoryHash PhysicalMemory env (fst (getWMIInterface env))
           (registryBefore env (fst (getWMIInterface env)) PhysicalMemory)))
       @ snd (fst (categoryHash BIOS env (fst (getWMIInterface env))
           (registryBefore env (fst (getWMIInterface env)) BIOS)))
       @ snd (fst (categoryHash ComputerSystem env (fst (getWMIInterface env))
           (registryBefore env (fst (getWMIInterface env)) ComputerSystem)))
       @ [HostnameInfo, PrimaryIpInfo, MacAddrInfo]
       @ snd (fst (categoryHash DiskDrive env (fst (getWMIInterface env))
           (registryBefore env (fst (getWMIInterface env)) DiskDrive))))"
  using assms
  by (simp add: currentHwHash_def case_prod_beta registryBefore_unfold)

lemma exampleEnv_ready: "waitForService (service_Query exampleEnv) = (None, [ServiceQuery])"
  by (rule waitForService_first_poll) (simp add: exampleEnv_def)

lemma exampleEnv_gate:
  "mgr_Connect exampleEnv = None" "mgr_OpenService exampleEnv wmiServiceName = None"
  "fst (waitForService (service_Query exampleEnv)) = None"
  by (simp_all add: exampleEnv_ready) (simp_all add: exampleEnv_def)

lemma failingEnv_ready: "waitForService (service_Query failingEnv) = (None, [ServiceQuery])"
  by (rule waitForService_first_poll) (simp add: failingEnv_def exampleEnv_def)

lemma pendingEnv_timeout:
  "waitForService (service_Query pendingEnv) =
     (Some timeoutError, concat (replicate 5 [ServiceQuery, Sleep 15]))"
  by (rule waitForService_exhausted) (simp add: pendingEnv_def)

text \<open>
  C2. In every run in which the service manager is reached, the service is opened and
  the readiness wait succeeds, so that the category queries are made, the map returned
  has exactly the nine keys \<^verbatim>\<open>uuid\<close>, \<^verbatim>\<open>processor-hash\<close>, \<^verbatim>\<open>memory-hash\<close>,
  \<^verbatim>\<open>bios-hash\<close>, \<^verbatim>\<open>system-hash\<close>, \<^verbatim>\<open>hostname-info\<close>, \<^verbatim>\<open>ip-address\<close>,
  \<^verbatim>\<open>macaddr-info\<close> and \<^verbatim>\<open>disk-info\<close>, whatever the queries, the commands, the encoder
  and the lookups answer.
\<close>

theorem currentHwHash_nine_keys:
  assumes "mgr_Connect env = None" "mgr_OpenService env wmiServiceName = None"
    "fst (waitForService (service_Query env)) = None"
  shows "dom (fst (fst (currentHwHash env))) =
           {''uuid'', ''processor-hash'', ''memory-hash'', ''bios-hash'', ''system-hash'',
            ''hostname-info'', ''ip-address'', ''macaddr-info'', ''disk-info''}
         \<and> card (dom (fst (fst (currentHwHash env)))) = 9"
proof -
  have d: "dom (fst (fst (currentHwHash env))) =
           {''uuid'', ''processor-hash'', ''memory-hash'', ''bios-hash'', ''system-hash'',
            ''hostname-info'', ''ip-address'', ''macaddr-info'', ''disk-info''}"
    by (simp add: currentHwHash_collect [OF assms] hardwareID_def ipAddressID_def
        insert_commute)
  have "card {''uuid'', ''processor-hash'', ''memory-hash'', ''bios-hash'', ''system-hash'',
            ''hostname-info'', ''ip-address'', ''macaddr-info'', ''disk-info''} = 9"
    by simp
  with d show ?thesis by simp
qed

text \<open>The host on which every query, command and lookup fails, and the example host,
  on which they all succeed.\<close>

theorem currentHwHash_nine_keys_witness:
  "mgr_Connect failingEnv = None \<and> mgr_OpenService failingEnv wmiServiceName = None
   \<and> fst (waitForService (service_Query failingEnv)) = None
   \<and> dom (fst (fst (currentHwHash failingEnv))) =
           {''uuid'', ''processor-hash'', ''memory-hash'', ''bios-hash'', ''system-hash'',
            ''hostname-info'', ''ip-address'', ''macaddr-info'', ''disk-info''}
   \<and> card (dom (fst (fst (currentHwHash failingEnv)))) = 9
   \<and> dom (fst (fst (currentHwHash exampleEnv))) =
           {''uuid'', ''processor-hash'', ''memory-hash'', ''bios-hash'', ''system-hash'',
            ''hostname-info'', ''ip-address'', ''macaddr-info'', ''disk-info''}"
proof -
  have c: "mgr_Connect failingEnv = None" by (simp add: failingEnv_def exampleEnv_def)
  have s: "mgr_OpenService failingEnv wmiServiceName = None"
    by (simp add: failingEnv_def exampleEnv_def)
  have w: "fst (waitForService (service_Query failingEnv)) = None"
    by (simp add: failingEnv_ready)
  note failing = currentHwHash_nine_keys [OF c s w]
  note example = currentHwHash_nine_keys [OF exampleEnv_gate]
  show ?thesis
    by (intro conjI)
       (rule c, rule s, rule w, rule failing [THEN conjunct1], rule failing [THEN conjunct2],
        rule example [THEN conjunct1])
qed

text \<open>
  C3, as the spec has it: the only error \<^verbatim>\<open>currentHwHash\<close> ever returns is the failure
  of the readiness wait. On a host whose service manager refuses the connection it
  returns the error of \<^verbatim>\<open>mgr.Connect\<close>, which is not the timeout of the wait, without
  having polled the service once.
\<close>

theorem currentHwHash_error_counterexample:
  "snd (fst (currentHwHash refusedEnv)) = Some (Error ''Access is denied.'')
   \<and> snd (fst (currentHwHash refusedEnv)) \<noteq> fst (waitForService (service_Query refusedEnv))
   \<and> snd (currentHwHash refusedEnv) = [MgrConnect]"
proof -
  have c: "mgr_Connect refusedEnv = Some (Error ''Access is denied.'')"
    by (simp add: refusedEnv_def)
  have "waitForService (service_Query refusedEnv) = (None, [ServiceQuery])"
    by (rule waitForService_first_poll) (simp add: refusedEnv_def exampleEnv_def)
  then show ?thesis
    by (simp add: currentHwHash_connect_failed [OF c])
qed

text \<open>
  C3, amended. The error that \<^verbatim>\<open>currentHwHash\<close> returns is the error of
  \<^verbatim>\<open>mgr.Connect\<close> if there is one, else the error of \<^verbatim>\<open>OpenService\<close> if there is one,
  else the result of the readiness wait. So it returns no error in every run in which
  these three steps succeed, whatever the category queries and the host identity lookups
  do, and no error of a category or of a lookup is ever returned.
\<close>

theorem currentHwHash_error:
  "snd (fst (currentHwHash env)) =
     (case mgr_Connect env of Some err \<Rightarrow> Some err
      | None \<Rightarrow> (case mgr_OpenService env wmiServiceName of Some err \<Rightarrow> Some err
                 | None \<Rightarrow> fst (waitForService (service_Query env))))"
proof (cases "mgr_Connect env")
  case (Some err)
  then show ?thesis by (simp add: currentHwHash_connect_failed)
next
  case None
  note c = this
  show ?thesis
  proof (cases "mgr_OpenService env wmiServiceName")
    case (Some err)
    with c show ?thesis by (simp add: currentHwHash_open_failed)
  next
    case None
    note s = this
    show ?thesis
    proof (cases "fst (waitForService (service_Query env))")
      case None
      with c s show ?thesis by (simp add: currentHwHash_collect)
    next
      case (Some err)
      with c s show ?thesis by (simp add: currentHwHash_wait_failed)
    qed
  qed
qed

text \<open>The host on which every category and lookup fails returns no error; the host whose
  service stays pending returns the timeout.\<close>

theorem currentHwHash_error_witness:
  "snd (fst (currentHwHash failingEnv)) = None
   \<and> snd (fst (currentHwHash pendingEnv)) =
       Some (Error ''Failed to wait for WMI to get into Running status'')"
proof
  have "mgr_Connect failingEnv = None" "mgr_OpenService failingEnv wmiServiceName = None"
    by (simp_all add: failingEnv_def exampleEnv_def)
  then show "snd (fst (currentHwHash failingEnv)) = None"
    using currentHwHash_error [of failingEnv] by (simp add: failingEnv_ready)
next
  have "mgr_Connect pendingEnv = None" "mgr_OpenService pendingEnv wmiServiceName = None"
    by (simp_all add: pendingEnv_def exampleEnv_def)
  then show "snd (fst (currentHwHash pendingEnv)) =
       Some (Error ''Failed to wait for WMI to get into Running status'')"
    using currentHwHash_error [of pendingEnv]
    by (simp add: pendingEnv_timeout timeoutError_def)
qed

text \<open>
  C6. When the service manager is reached and the service opened, and none of the 5
  polls sees the service running, \<^verbatim>\<open>currentHwHash\<close> returns the empty map with the
  timeout error, and the run consists of the connection, the opening and the 5 polls with
  their sleeps: no WMI query, no command and no host identity lookup is made.
\<close>

theorem currentHwHash_timeout:
  assumes "mgr_Connect env = None" "mgr_OpenService env wmiServiceName = None"
    "\<forall>k<5. \<not> (snd (service_Query env k) = None \<and> State (fst (service_Query env k)) = Running)"
  shows "currentHwHash env =
           ((Map.empty, Some (Error ''Failed to wait for WMI to get into Running status'')),
            [MgrConnect, OpenService ''Winmgmt'']
              @ concat (replicate 5 [ServiceQuery, Sleep 15]))
         \<and> (\<forall>cls. WmiQuery cls \<notin> set (snd (currentHwHash env)))
         \<and> (\<forall>args. ExecOutput args \<notin> set (snd (currentHwHash env)))
         \<and> HostnameInfo \<notin> set (snd (currentHwHash env))
         \<and> PrimaryIpInfo \<notin> set (snd (currentHwHash env))
         \<and> MacAddrInfo \<notin> set (snd (currentHwHash env))"
proof -
  have w: "waitForService (service_Query env) =
      (Some timeoutError, concat (replicate 5 [ServiceQuery, Sleep 15]))"
    by (rule waitForService_exhausted [OF assms(3)])
  then have "fst (waitForService (service_Query env)) = Some timeoutError" by simp
  from currentHwHash_wait_failed [OF assms(1) assms(2) this]
  have run: "currentHwHash env =
           ((Map.empty, Some (Error ''Failed to wait for WMI to get into Running status'')),
            [MgrConnect, OpenService ''Winmgmt'']
              @ concat (replicate 5 [ServiceQuery, Sleep 15]))"
    by (simp add: w timeoutError_def wmiServiceName_def)
  have evs: "set (snd (currentHwHash env)) \<subseteq>
      {MgrConnect, OpenService ''Winmgmt'', ServiceQuery, Sleep 15}"
    by (auto simp: run)
  show ?thesis
    using run evs by auto
qed

theorem currentHwHash_timeout_witness:
  "currentHwHash pendingEnv =
     ((Map.empty, Some (Error ''Failed to wait for WMI to get into Running status'')),
      [MgrConnect, OpenService ''Winmgmt'', ServiceQuery, Sleep 15, ServiceQuery, Sleep 15,
       ServiceQuery, Sleep 15, ServiceQuery, Sleep 15, ServiceQuery, Sleep 15])"
proof -
  have c: "mgr_Connect pendingEnv = None" by (simp add: pendingEnv_def exampleEnv_def)
  have s: "mgr_OpenService pendingEnv wmiServiceName = None"
    by (simp add: pendingEnv_def exampleEnv_def)
  have p: "\<forall>k<5. \<not> (snd (service_Query pendingEnv k) = None
               \<and> State (fst (service_Query pendingEnv k)) = Running)"
    by (simp add: pendingEnv_def)
  show ?thesis
    using currentHwHash_timeout [OF c s p] by (simp add: eval_nat_numeral)
qed

subsection \<open>One category failing\<close>

lemma categoryHash_unfold:
  "categoryHash c env w g =
     (if w = wmic then
        (case exec_Output env (wmicCommand env) (categoryParams c) of
           (out, None) \<Rightarrow> (((EncodeToString (md5_Sum out), None),
                             [ExecOutput (wmicCommand env # categoryParams c)]), g)
         | (out, Some e) \<Rightarrow>
             ((([], Some e), [ExecOutput (wmicCommand env # categoryParams c)]), g))
      else if w = wql then
        (case c of
           CsProduct \<Rightarrow>
             (case getWMIObject (gob_Encode env) (categoryClass c)
                     zero_Win32_ComputerSystemProduct gob_Win32_ComputerSystemProduct
                     (wmi_Win32_ComputerSystemProduct env) g of
                (((d, r, err), evs), g') \<Rightarrow> (((d, err), evs), g'))
         | Processor \<Rightarrow>
             (case getWMIObject (gob_Encode env) (categoryClass c)
                     zero_Win32_Processor gob_Win32_Processor (wmi_Win32_Processor env) g of
                (((d, r, err), evs), g') \<Rightarrow> (((d, err), evs), g'))
         | PhysicalMemory \<Rightarrow>
             (case getWMIObject (gob_Encode env) (categoryClass c)
                     zero_Win32_PhysicalMemory gob_Win32_PhysicalMemory
                     (wmi_Win32_PhysicalMemory env) g of
                (((d, r, err), evs), g') \<Rightarrow> (((d, err), evs), g'))
         | BIOS \<Rightarrow>
             (case getWMIObject (gob_Encode env) (categoryClass c)
                     zero_Win32_BIOS gob_Win32_BIOS (wmi_Win32_BIOS env) g of
                (((d, r, err), evs), g') \<Rightarrow> (((d, err), evs), g'))
         | ComputerSystem \<Rightarrow>
             (case getWMIObject (gob_Encode env) (categoryClass c)
                     zero_Win32_ComputerSystem gob_Win32_ComputerSystem
                     (wmi_Win32_ComputerSystem env) g of
                (((d, r, err), evs), g') \<Rightarrow> (((d, err), evs), g'))
         | DiskDrive \<Rightarrow>
             (case getWMIObject (gob_Encode env) (categoryClass c)
                     zero_Win32_DiskDrive gob_Win32_DiskDrive (wmi_Win32_DiskDrive env) g of
                (((d, r, err), evs), g') \<Rightarrow> (((d, err), evs), g')))
      else ((([], None), []), g))"
  by (cases c)
     (simp_all add: csproductUuid_def processorInfoHash_def memoryInfoHash_def
        biosInfoHash_def systemInfoHash_def diskInfoHash_def commandOutputHash_def
        split: prod.splits option.splits)















lemma failQuery_gate:
  "mgr_Connect (failQuery c e env) = mgr_Connect env"
  "mgr_OpenService (failQuery c e env) = mgr_OpenService env"
  "service_Query (failQuery c e env) = service_Query env"
  "wmi_Win32_OperatingSystem (failQuery c e env) = wmi_Win32_OperatingSystem env"
  "hostnameInfo (failQuery c e env) = hostnameInfo env"
  "primaryIpInfo (failQuery c e env) = primaryIpInfo env"
  "macAddrInfo (failQuery c e env) = macAddrInfo env"
  "wmicCommand (failQuery c e env) = wmicCommand env"
  "gob_Encode (failQuery c e env) = gob_Encode env"
  "gob_Registry (failQuery c e env) = gob_Registry env"
  by (cases c; simp)+



lemma categoryKey_inj: "categoryKey d = categoryKey c \<longleftrightarrow> d = c"
  by (cases c; cases d; simp add: hardwareID_def)


lemma categoryHash_failQuery_other:
  "d \<noteq> c \<Longrightarrow> categoryHash d (failQuery c e env) w g = categoryHash d env w g"
  unfolding categoryHash_unfold
  by (cases c; cases d; simp add: failCommand_def)

text \<open>The registry along the categories, with and without the failure.\<close>

lemma registries_without:
  "c \<notin> set ds \<Longrightarrow>
   foldl (\<lambda>g d. snd (categoryHash d (failQuery c e env) w g)) g ds
     = foldl (\<lambda>g d. snd (categoryHash d env w g)) g ds"
  by (induction ds arbitrary: g) (auto simp: categoryHash_failQuery_other)




lemma registryBefore_failQuery_same:
  "registryBefore (failQuery c e env) w c = registryBefore env w c"
proof -
  have "c \<notin> set (takeWhile (\<lambda>x. x \<noteq> c) categoryOrder)"
    by (auto dest: set_takeWhileD)
  from registries_without [OF this] show ?thesis
    by (simp only: registryBefore_def failQuery_gate)
qed









subsection \<open>The example host with the processor query failing\<close>
















subsection \<open>The two backends compared\<close>

lemma commandOutputHash_succeeded:
  "exec_Output env command params = (out, None) \<Longrightarrow>
   fst (commandOutputHash env command params)
     = (EncodeToString (md5_Sum out), string_of out, None)"
  by (simp add: commandOutputHash_def)

lemma uuid_text_digest:
  "EncodeToString (md5_Sum (bytes_of ''4C4C4544'')) = ''D4cNjj0ivNWtUSDAKezEIA==''"
  by code_simp

text \<open>
  C1, as the spec has it: fed the same attribute value, the two backends return the same
  encoded digest. On the host that gives the UUID \<^verbatim>\<open>4C4C4544\<close> on both backends, with
  the text of the command being the value itself, the command-output backend returns the
  digest of the eight characters and the structured-query backend the digest of the gob
  stream of the record, which holds the description of the type before the value: two
  different strings, whether the first type id of the process is 64 or 65.
\<close>

theorem backend_digests_counterexample:
  "fst (fst (csproductUuid uuidEnv wmic (freshRegistry 64))) = (''D4cNjj0ivNWtUSDAKezEIA=='', None)
   \<and> fst (fst (csproductUuid uuidEnv wql (freshRegistry 64)))
       = (''U9axw3HZm6pxZIHVSpitcA=='', None)
   \<and> fst (fst (csproductUuid uuidEnv wql (freshRegistry 65)))
       = (''POner26OB6ICoBPsqkF50Q=='', None)
   \<and> fst (fst (fst (csproductUuid uuidEnv wmic (freshRegistry 64))))
       \<noteq> fst (fst (fst (csproductUuid uuidEnv wql (freshRegistry 64))))
   \<and> fst (fst (fst (csproductUuid uuidEnv wmic (freshRegistry 65))))
       \<noteq> fst (fst (fst (csproductUuid uuidEnv wql (freshRegistry 65))))"
proof -
  have out: "exec_Output uuidEnv (wmicCommand uuidEnv) [''csproduct'', ''get'', ''UUID'']
               = (bytes_of ''4C4C4544'', None)"
    by (simp add: uuidEnv_def)
  have by_command: "fst (fst (csproductUuid uuidEnv wmic g)) = (''D4cNjj0ivNWtUSDAKezEIA=='', None)"
    for g
    by (simp add: csproductUuid_def case_prod_beta commandOutputHash_succeeded [OF out]
        uuid_text_digest)
  have enc: "gob_Encode uuidEnv = gobEncoder"
    by (simp add: uuidEnv_def exampleEnv_def)
  have rec: "wmi_Win32_ComputerSystemProduct uuidEnv = ([\<lparr>UUID = ''4C4C4544''\<rparr>], None)"
    by (simp add: uuidEnv_def)
  have by_query_64: "fst (fst (csproductUuid uuidEnv wql (freshRegistry 64)))
      = (''U9axw3HZm6pxZIHVSpitcA=='', None)"
    by (simp add: csproductUuid_def wql_neq_wmic case_prod_beta enc rec uuid_digest_fresh_64)
  have by_query_65: "fst (fst (csproductUuid uuidEnv wql (freshRegistry 65)))
      = (''POner26OB6ICoBPsqkF50Q=='', None)"
    by (simp add: csproductUuid_def wql_neq_wmic case_prod_beta enc rec uuid_digest_fresh_65)
  show ?thesis
    by (simp add: by_command by_query_64 by_query_65)
qed

text \<open>
  C1, amended. Both backends apply the same step, the base64 encoding of the MD5 sum, to
  the bytes they obtain: the command-output backend to the raw output of the command, the
  structured-query backend to the gob stream of the first record. When the command
  succeeds with output \<open>out\<close> and the encoder gives \<open>b\<close> for the record, the two
  digests are those of \<open>out\<close> and of \<open>b\<close>; they are equal exactly when the MD5 sums
  of \<open>out\<close> and \<open>b\<close> are equal, so whenever \<open>out\<close> and \<open>b\<close> are the same bytes.
\<close>

theorem backends_share_digest_step:
  "exec_Output env command params = (out, None) \<Longrightarrow> enc g (view r) = ((b, None), g') \<Longrightarrow>
   fst (fst (commandOutputHash env command params)) = EncodeToString (md5_Sum out)
   \<and> fst (fst (fst (getWMIObject enc cls zero view (r # rest, None) g)))
       = EncodeToString (md5_Sum b)
   \<and> (fst (fst (commandOutputHash env command params))
          = fst (fst (fst (getWMIObject enc cls zero view (r # rest, None) g)))
        \<longleftrightarrow> md5_Sum out = md5_Sum b)
   \<and> (out = b \<longrightarrow>
        fst (fst (commandOutputHash env command params))
          = fst (fst (fst (getWMIObject enc cls zero view (r # rest, None) g))))"
  using EncodeToString_inj [of "md5_Sum out" "md5_Sum b"]
  by (auto simp: commandOutputHash_succeeded getWMIObject_first)

text \<open>A command whose output is the gob stream of the record.\<close>

theorem backends_share_digest_step_witness:
  "fst (fst (commandOutputHash
       (uuidEnv\<lparr>exec_Output := (\<lambda>command params.
           fst (gobEncoder (freshRegistry 64)
                  (gob_Win32_ComputerSystemProduct \<lparr>UUID = ''4C4C4544''\<rparr>)))\<rparr>)
       ''wmic.exe'' [''csproduct'', ''get'', ''UUID'']))
     = fst (fst (fst (getWMIObject gobEncoder ''Win32_ComputerSystemProduct''
          zero_Win32_ComputerSystemProduct gob_Win32_ComputerSystemProduct
          ([\<lparr>UUID = ''4C4C4544''\<rparr>], None) (freshRegistry 64))))"
proof -
  let ?r = "\<lparr>UUID = ''4C4C4544''\<rparr>"
  let ?g = "freshRegistry 64"
  let ?b = "fst (fst (gobEncoder ?g (gob_Win32_ComputerSystemProduct ?r)))"
  let ?g' = "snd (gobEncoder ?g (gob_Win32_ComputerSystemProduct ?r))"
  let ?env = "uuidEnv\<lparr>exec_Output := (\<lambda>command params.
           fst (gobEncoder ?g (gob_Win32_ComputerSystemProduct ?r)))\<rparr>"
  have enc: "gobEncoder ?g (gob_Win32_ComputerSystemProduct ?r) = ((?b, None), ?g')"
    by (simp add: gobEncoder_unfold)
  have out: "exec_Output ?env ''wmic.exe'' [''csproduct'', ''get'', ''UUID''] = (?b, None)"
    by (simp add: gobEncoder_unfold)
  show ?thesis
    using out enc backends_share_digest_step
      [of ?env "''wmic.exe''" "[''csproduct'', ''get'', ''UUID'']" ?b gobEncoder ?g
          gob_Win32_ComputerSystemProduct ?r ?b ?g' "''Win32_ComputerSystemProduct''"
          zero_Win32_ComputerSystemProduct "[]"]
    by blast
qed

end
